theory Spec2Isabelle
  imports Main "HOL-Library.Char_ord" "HOL-Library.List_Lexorder"
begin

section \<open>JavaScript values, strings and thrown values\<close>

text \<open>
  The values that cross the storage layer: \<open>undefined\<close>, \<open>null\<close>, booleans, numbers,
  strings, arrays and plain objects. A number is kept as the decimal text that
  JavaScript prints for it (\<open>String(x)\<close>): \<open>0\<close>, \<open>-1.5\<close>, \<open>1e+21\<close>, \<open>NaN\<close>,
  \<open>Infinity\<close>. Every number has one such text, and two numbers with the same
  text are the same number, the two zeros apart, which both print as \<open>0\<close>. An
  object is given by the list of the assignments that made it, in order:
  \<open>own_properties\<close> below gives its properties as JavaScript lists them. A
  string is the list of its characters, a character outside ASCII being kept
  as the bytes of its UTF-8 encoding.
\<close>

datatype jsval =
    JUndefined
  | JNull
  | JBool bool
  | JNum string
  | JStr string
  | JArr "jsval list"
  | JObj "(string \<times> jsval) list"

text \<open>What a \<open>throw\<close> carries: an \<open>Error\<close> object with its \<open>name\<close> and \<open>message\<close>.\<close>

datatype thrown = JsError (err_name: string) (err_message: string)

text \<open>\<open>new Error(msg)\<close>.\<close>

definition new_Error :: "string \<Rightarrow> thrown" where
  "new_Error msg = JsError ''Error'' msg"

text \<open>
  A \<open>try { body } catch (error) { handler }\<close> statement: the handler sees what the
  body threw, and may return or throw in turn. It is used for the handlers of
  the remote service, where every \<open>throw\<close> comes before the first change of a
  sheet, so that the \<open>catch\<close> block runs in the state in which the handler was
  entered.
\<close>

definition try_catch :: "(thrown + 'a) \<Rightarrow> (thrown \<Rightarrow> thrown + 'a) \<Rightarrow> thrown + 'a" where
  "try_catch body handler = (case body of Inl e \<Rightarrow> handler e | Inr v \<Rightarrow> Inr v)"

text \<open>Truthiness of a value (\<open>!x\<close>, \<open>x || y\<close>).\<close>

fun truthy :: "jsval \<Rightarrow> bool" where
  "truthy JUndefined = False"
| "truthy JNull = False"
| "truthy (JBool b) = b"
| "truthy (JNum n) = (n \<noteq> ''0'' \<and> n \<noteq> ''NaN'')"
| "truthy (JStr s) = (s \<noteq> [])"
| "truthy (JArr xs) = True"
| "truthy (JObj ps) = True"

text \<open>
  A string-valued request parameter or property that may be missing: \<open>None\<close> is
  \<open>undefined\<close> (or \<open>null\<close>). \<open>!x\<close> holds of a missing and of an empty string.
\<close>

definition falsy :: "string option \<Rightarrow> bool" where
  "falsy x = (case x of None \<Rightarrow> True | Some s \<Rightarrow> s = [])"

text \<open>\<open>x || d\<close> for such a parameter and a string \<open>d\<close>.\<close>

definition or_default :: "string option \<Rightarrow> string \<Rightarrow> string" where
  "or_default x d = (case x of None \<Rightarrow> d | Some s \<Rightarrow> if s = [] then d else s)"

text \<open>\<open>s.startsWith(p)\<close> and \<open>s.includes(sub)\<close>, on strings.\<close>

fun startsWith :: "string \<Rightarrow> string \<Rightarrow> bool" where
  "startsWith s [] = True"
| "startsWith [] (p # ps) = False"
| "startsWith (c # cs) (p # ps) = (c = p \<and> startsWith cs ps)"

fun includes_str :: "string \<Rightarrow> string \<Rightarrow> bool" where
  "includes_str [] sub = (sub = [])"
| "includes_str (c # cs) sub = (startsWith (c # cs) sub \<or> includes_str cs sub)"

text \<open>\<open>s.split(sep)\<close> for a one-character separator: never the empty list.\<close>

fun split_on :: "char \<Rightarrow> string \<Rightarrow> string list" where
  "split_on sep [] = [[]]"
| "split_on sep (c # cs) =
     (if c = sep then [] # split_on sep cs
      else (case split_on sep cs of
              [] \<Rightarrow> [[c]]
            | p # ps \<Rightarrow> (c # p) # ps))"

text \<open>\<open>parts.join(sep)\<close>.\<close>

fun join :: "string \<Rightarrow> string list \<Rightarrow> string" where
  "join sep [] = []"
| "join sep [p] = p"
| "join sep (p # q # ps) = p @ sep @ join sep (q # ps)"

text \<open>
  The decimal digits of a non-negative integer, as \<open>String(n)\<close> prints an integer
  below \<open>10^21\<close>.
\<close>

definition digit_char :: "int \<Rightarrow> char" where
  "digit_char d = ''0123456789'' ! nat (d mod 10)"

function dec_digits :: "int \<Rightarrow> string" where
  "dec_digits n =
     (if n < 10 then [digit_char n] else dec_digits (n div 10) @ [digit_char (n mod 10)])"
  by pat_completeness auto
termination
  by (relation "measure nat") auto

declare dec_digits.simps [simp del]

definition int_to_string :: "int \<Rightarrow> string" where
  "int_to_string i = (if i < 0 then CHR ''-'' # dec_digits (- i) else dec_digits i)"

text \<open>The digits of \<open>n\<close>, padded with zeros on the left to at least \<open>w\<close> characters.\<close>

definition pad_left :: "nat \<Rightarrow> int \<Rightarrow> string" where
  "pad_left w n = replicate (w - length (dec_digits n)) CHR ''0'' @ dec_digits n"

text \<open>
  \<open>String(v)\<close>, the conversion applied by \<open>new Error(v)\<close>, by string concatenation
  and by \<open>localStorage.setItem\<close>.
\<close>

fun to_string :: "jsval \<Rightarrow> string" where
  "to_string JUndefined = ''undefined''"
| "to_string JNull = ''null''"
| "to_string (JBool b) = (if b then ''true'' else ''false'')"
| "to_string (JNum n) = n"
| "to_string (JStr s) = s"
| "to_string (JArr xs) =
     join '','' (map (\<lambda>x. if x = JUndefined \<or> x = JNull then [] else to_string x) xs)"
| "to_string (JObj ps) = ''[object Object]''"

text \<open>Reading a run of decimal digits.\<close>

definition digit_val :: "char \<Rightarrow> int option" where
  "digit_val c = (if c \<in> set ''0123456789'' then Some ((of_char c :: int) - 48) else None)"

fun digits_val :: "string \<Rightarrow> int \<Rightarrow> int option" where
  "digits_val [] acc = Some acc"
| "digits_val (c # cs) acc =
     (case digit_val c of None \<Rightarrow> None | Some d \<Rightarrow> digits_val cs (10 * acc + d))"

text \<open>
  The properties of an object in the order in which JavaScript lists them
  (\<open>Object.keys\<close>, \<open>JSON.stringify\<close>). Assigning to a name that the object has
  already keeps the place of the property and replaces its value. The names
  that are array indices, the decimal texts of \<open>0 .. 2^32 - 2\<close> without leading
  zeros, come first in ascending numeric order; the other names follow in the
  order in which they were first assigned.
\<close>

fun set_property :: "string \<Rightarrow> 'a \<Rightarrow> (string \<times> 'a) list \<Rightarrow> (string \<times> 'a) list" where
  "set_property k v [] = [(k, v)]"
| "set_property k v (p # ps) = (if fst p = k then (k, v) # ps else p # set_property k v ps)"

definition array_index :: "string \<Rightarrow> int option" where
  "array_index k =
     (if k = ''0'' then Some 0
      else if k \<noteq> [] \<and> hd k \<noteq> CHR ''0'' \<and> length k \<le> 10 then
        (case digits_val k 0 of
           Some n \<Rightarrow> if n \<le> 4294967294 then Some n else None
         | None \<Rightarrow> None)
      else None)"

definition own_properties :: "(string \<times> 'a) list \<Rightarrow> (string \<times> 'a) list" where
  "own_properties assignments =
     (let ps = foldl (\<lambda>acc p. set_property (fst p) (snd p) acc) [] assignments
      in sort_key (\<lambda>p. case array_index (fst p) of Some n \<Rightarrow> n | None \<Rightarrow> 0)
           (filter (\<lambda>p. array_index (fst p) \<noteq> None) ps)
         @ filter (\<lambda>p. array_index (fst p) = None) ps)"

text \<open>
  \<open>JSON.stringify(v)\<close> for a value other than \<open>undefined\<close>. A number is written
  as its text, and \<open>NaN\<close> and the infinities as \<open>null\<close>. A string is quoted, with
  the quote, the backslash and the control characters escaped. An \<open>undefined\<close>
  array element is written \<open>null\<close> and an \<open>undefined\<close> property is left out. At top
  level \<open>JSON.stringify(undefined)\<close> is \<open>undefined\<close>, not a text: the callers
  modelled here reject \<open>undefined\<close> before they serialise.
\<close>

definition hex_char :: "int \<Rightarrow> char" where
  "hex_char d = ''0123456789abcdef'' ! nat (d mod 16)"

definition escape_char :: "char \<Rightarrow> string" where
  "escape_char c =
     (if c = CHR 0x22 then [CHR 0x5C, CHR 0x22]
      else if c = CHR 0x5C then [CHR 0x5C, CHR 0x5C]
      else if c = CHR 0x08 then [CHR 0x5C, CHR ''b'']
      else if c = CHR 0x09 then [CHR 0x5C, CHR ''t'']
      else if c = CHR 0x0A then [CHR 0x5C, CHR ''n'']
      else if c = CHR 0x0C then [CHR 0x5C, CHR ''f'']
      else if c = CHR 0x0D then [CHR 0x5C, CHR ''r'']
      else if (of_char c :: int) < 32
        then [CHR 0x5C, CHR ''u'', CHR ''0'', CHR ''0'',
              hex_char ((of_char c :: int) div 16), hex_char (of_char c :: int)]
      else [c])"

definition quote :: "string \<Rightarrow> string" where
  "quote s = CHR 0x22 # concat (map escape_char s) @ [CHR 0x22]"

definition finite_number :: "string \<Rightarrow> bool" where
  "finite_number n = (n \<noteq> ''NaN'' \<and> n \<noteq> ''Infinity'' \<and> n \<noteq> ''-Infinity'')"

fun JSON_stringify :: "jsval \<Rightarrow> string" where
  "JSON_stringify JUndefined = ''null''"
| "JSON_stringify JNull = ''null''"
| "JSON_stringify (JBool b) = (if b then ''true'' else ''false'')"
| "JSON_stringify (JNum n) = (if finite_number n then n else ''null'')"
| "JSON_stringify (JStr s) = quote s"
| "JSON_stringify (JArr xs) = ''['' @ join '','' (map JSON_stringify xs) @ '']''"
| "JSON_stringify (JObj ps) =
     ''{'' @ join '',''
        (List.map_filter
           (\<lambda>p. case snd p of None \<Rightarrow> None | Some t \<Rightarrow> Some (quote (fst p) @ '':'' @ t))
           (own_properties
              (map (\<lambda>p. (fst p, if snd p = JUndefined then None
                                  else Some (JSON_stringify (snd p)))) ps))) @ ''}''"

section \<open>Dates\<close>

text \<open>
  A \<open>Date\<close> object holds a time value: the milliseconds since 1970-01-01T00:00Z,
  at most \<open>8.64 * 10^15\<close> either way, or \<open>NaN\<close> for the Invalid Date, which is
  \<open>None\<close> here. The script's time zone is taken to be UTC, so that the local-time
  accessors (\<open>getFullYear\<close>, \<open>setDate\<close>) agree with the UTC text of
  \<open>toISOString\<close>.
\<close>

type_synonym jsdate = "int option"

definition ms_per_day :: int where
  "ms_per_day = 86400000"

text \<open>\<open>TimeClip\<close>: a time value out of the range of \<open>Date\<close> is \<open>NaN\<close>.\<close>

definition time_clip :: "int \<Rightarrow> jsdate" where
  "time_clip t = (if \<bar>t\<bar> \<le> 8640000000000000 then Some t else None)"

text \<open>
  The day number of a civil date in the proleptic Gregorian calendar, for a month
  \<open>1 .. 12\<close>. The day of the month may lie outside the month: the result moves on
  by one for each further day, as \<open>MakeDay\<close> does.
\<close>

definition days_from_civil :: "int \<Rightarrow> int \<Rightarrow> int \<Rightarrow> int" where
  "days_from_civil y m d =
     (let y' = (if m \<le> 2 then y - 1 else y);
          era = y' div 400;
          yoe = y' - era * 400;
          mp = (if m > 2 then m - 3 else m + 9);
          doy = (153 * mp + 2) div 5 + d - 1;
          doe = yoe * 365 + yoe div 4 - yoe div 100 + doy
      in era * 146097 + doe - 719468)"

text \<open>The civil date (year, month \<open>1 .. 12\<close>, day of the month) of a day number.\<close>

definition civil_from_days :: "int \<Rightarrow> int \<times> int \<times> int" where
  "civil_from_days z =
     (let z' = z + 719468;
          era = z' div 146097;
          doe = z' - era * 146097;
          yoe = (doe - doe div 1460 + doe div 36524 - doe div 146096) div 365;
          doy = doe - (365 * yoe + yoe div 4 - yoe div 100);
          mp = (5 * doy + 2) div 153;
          d = doy - (153 * mp + 2) div 5 + 1;
          m = (if mp < 10 then mp + 3 else mp - 9);
          y = yoe + era * 400
      in (if m \<le> 2 then y + 1 else y, m, d))"

text \<open>The number written in the \<open>n\<close> characters of \<open>s\<close> from position \<open>i\<close>.\<close>

definition num_field :: "string \<Rightarrow> nat \<Rightarrow> nat \<Rightarrow> int option" where
  "num_field s i n =
     (if length (take n (drop i s)) = n then digits_val (take n (drop i s)) 0 else None)"

text \<open>
  The two ISO forms of a date text: the date-only form \<open>YYYY-MM-DD\<close>, which is
  midnight UTC, and the form \<open>YYYY-MM-DDTHH:mm:ss.sssZ\<close> that \<open>toISOString\<close>
  writes. As in the V8 engine, a month \<open>1 .. 12\<close> with a day \<open>1 .. 31\<close> is
  accepted and a day past the end of the month runs into the next month.
\<close>

definition parse_date_part :: "string \<Rightarrow> int option" where
  "parse_date_part s =
     (case (num_field s 0 4, num_field s 5 2, num_field s 8 2) of
        (Some y, Some m, Some d) \<Rightarrow>
          (if s ! 4 = CHR ''-'' \<and> s ! 7 = CHR ''-'' \<and> 1 \<le> m \<and> m \<le> 12 \<and> 1 \<le> d \<and> d \<le> 31
           then Some (days_from_civil y m d)
           else None)
      | _ \<Rightarrow> None)"

definition parse_time_part :: "string \<Rightarrow> int option" where
  "parse_time_part s =
     (case (num_field s 11 2, num_field s 14 2, num_field s 17 2, num_field s 20 3) of
        (Some h, Some mi, Some sec, Some ms) \<Rightarrow>
          (if s ! 10 = CHR ''T'' \<and> s ! 13 = CHR '':'' \<and> s ! 16 = CHR '':''
              \<and> s ! 19 = CHR ''.'' \<and> s ! 23 = CHR ''Z''
              \<and> mi \<le> 59 \<and> sec \<le> 59
              \<and> (h \<le> 23 \<or> (h = 24 \<and> mi = 0 \<and> sec = 0 \<and> ms = 0))
           then Some (((h * 60 + mi) * 60 + sec) * 1000 + ms)
           else None)
      | _ \<Rightarrow> None)"

definition iso_dates :: "string option \<Rightarrow> int option" where
  "iso_dates x =
     (case x of
        None \<Rightarrow> None
      | Some s \<Rightarrow>
          (if length s = 10 then
             (case parse_date_part s of None \<Rightarrow> None | Some d \<Rightarrow> Some (d * ms_per_day))
           else if length s = 24 then
             (case (parse_date_part s, parse_time_part s) of
                (Some d, Some t) \<Rightarrow> Some (d * ms_per_day + t)
              | _ \<Rightarrow> None)
           else None))"

text \<open>
  What the script's runtime decides, and the code does not. \<open>date_parse\<close> is the
  time value of \<open>new Date(x)\<close> for a text \<open>x\<close>, or for a missing argument: which
  texts JavaScript reads as dates, beyond the ISO forms, is left to the engine,
  and no grammar is fixed here. \<open>collation\<close> gives the rank of a text in the
  order of \<open>localeCompare\<close>: \<open>a.localeCompare(b)\<close> is negative, zero or positive
  as the rank of \<open>a\<close> is below, equal to or above the rank of \<open>b\<close>.
\<close>

record runtime =
  date_parse :: "string option \<Rightarrow> int option"
  collation :: "string \<Rightarrow> string"

text \<open>
  The runtime of the worked examples. It reads the two ISO forms and takes
  every other text, and a missing argument, for the Invalid Date; it ranks
  texts by their characters. On the texts of the examples (dates
  \<open>YYYY-MM-DD\<close>, and the word \<open>soon\<close>, which is no date) this is what JavaScript
  does.
\<close>

definition iso_runtime :: runtime where
  "iso_runtime = \<lparr> date_parse = iso_dates, collation = (\<lambda>s. s) \<rparr>"

text \<open>\<open>new Date(x)\<close> for a text, or a missing argument.\<close>

definition new_Date :: "runtime \<Rightarrow> string option \<Rightarrow> jsdate" where
  "new_Date rt x = (case date_parse rt x of None \<Rightarrow> None | Some t \<Rightarrow> time_clip t)"

text \<open>\<open>getFullYear\<close> and \<open>getDate\<close>: \<open>NaN\<close> (here \<open>None\<close>) on the Invalid Date.\<close>

definition getFullYear :: "jsdate \<Rightarrow> int option" where
  "getFullYear t = (case t of None \<Rightarrow> None | Some ms \<Rightarrow> Some (fst (civil_from_days (ms div ms_per_day))))"

definition getDate :: "jsdate \<Rightarrow> int option" where
  "getDate t = (case t of None \<Rightarrow> None | Some ms \<Rightarrow> Some (snd (snd (civil_from_days (ms div ms_per_day)))))"

text \<open>
  \<open>setFullYear(y)\<close> keeps the month, the day of the month and the time of day;
  \<open>setDate(d)\<close> keeps the year, the month and the time of day; a result out of
  range is the Invalid Date. A \<open>NaN\<close> argument gives the Invalid Date, and the
  Invalid Date has no time of day to keep
  (\<open>setFullYear\<close> would restart it from time \<open>+0\<close>; the code calls it on a copy of a
  date whose year already was \<open>NaN\<close>, so its argument is \<open>NaN\<close> as well).
\<close>

definition setFullYear :: "jsdate \<Rightarrow> int option \<Rightarrow> jsdate" where
  "setFullYear t y =
     (case (t, y) of
        (Some ms, Some yr) \<Rightarrow>
          (case civil_from_days (ms div ms_per_day) of
             (y0, m, d) \<Rightarrow> time_clip (days_from_civil yr m d * ms_per_day + ms mod ms_per_day))
      | _ \<Rightarrow> None)"

definition setDate :: "jsdate \<Rightarrow> int option \<Rightarrow> jsdate" where
  "setDate t dt =
     (case (t, dt) of
        (Some ms, Some d) \<Rightarrow>
          (case civil_from_days (ms div ms_per_day) of
             (y, m, d0) \<Rightarrow> time_clip (days_from_civil y m d * ms_per_day + ms mod ms_per_day))
      | _ \<Rightarrow> None)"

text \<open>
  \<open>toISOString\<close>: a \<open>RangeError\<close> on the Invalid Date; otherwise the 24 characters
  \<open>YYYY-MM-DDTHH:mm:ss.sssZ\<close>, with a signed six-digit year outside \<open>0 .. 9999\<close>.
\<close>

definition iso_year :: "int \<Rightarrow> string" where
  "iso_year y =
     (if 0 \<le> y \<and> y \<le> 9999 then pad_left 4 y
      else if y < 0 then CHR ''-'' # pad_left 6 (- y)
      else CHR ''+'' # pad_left 6 y)"

definition toISOString :: "jsdate \<Rightarrow> thrown + string" where
  "toISOString t =
     (case t of
        None \<Rightarrow> Inl (JsError ''RangeError'' ''Invalid time value'')
      | Some ms \<Rightarrow>
          (case civil_from_days (ms div ms_per_day) of
             (y, m, d) \<Rightarrow>
               (let r = ms mod ms_per_day
                in Inr (iso_year y @ ''-'' @ pad_left 2 m @ ''-'' @ pad_left 2 d
                        @ ''T'' @ pad_left 2 (r div 3600000)
                        @ '':'' @ pad_left 2 ((r div 60000) mod 60)
                        @ '':'' @ pad_left 2 ((r div 1000) mod 60)
                        @ ''.'' @ pad_left 3 (r mod 1000) @ ''Z''))))"

text \<open>The comparisons \<open>a >= b\<close>, \<open>a <= b\<close> and \<open>a > b\<close> of two dates: false when either is invalid.\<close>

definition date_ge :: "jsdate \<Rightarrow> jsdate \<Rightarrow> bool" where
  "date_ge a b = (case (a, b) of (Some x, Some y) \<Rightarrow> x \<ge> y | _ \<Rightarrow> False)"

definition date_le :: "jsdate \<Rightarrow> jsdate \<Rightarrow> bool" where
  "date_le a b = (case (a, b) of (Some x, Some y) \<Rightarrow> x \<le> y | _ \<Rightarrow> False)"

definition date_gt :: "jsdate \<Rightarrow> jsdate \<Rightarrow> bool" where
  "date_gt a b = (case (a, b) of (Some x, Some y) \<Rightarrow> x > y | _ \<Rightarrow> False)"

section \<open>BaseStorage: the shared helpers\<close>

text \<open>\<open>Math.min(1000 * Math.pow(2, attempt), 5000)\<close>.\<close>

definition backoff_delay :: "nat \<Rightarrow> nat" where
  "backoff_delay attempt = min (1000 * 2 ^ attempt) 5000"




text \<open>
  \<open>BaseStorage.validateData\<close>. \<open>JSON.stringify\<close> throws on a \<open>BigInt\<close> and on an
  object that contains itself; on the values of the model it does not throw.
\<close>

definition validateData :: "jsval \<Rightarrow> thrown + unit" where
  "validateData d =
     (if d = JNull \<or> d = JUndefined then Inl (new_Error ''Data cannot be null or undefined'')
      else Inr ())"

text \<open>
  \<open>BaseStorage.generateKey\<close>: the parts that are truthy, joined with a dot. The
  prefix may be \<open>null\<close>.
\<close>

definition generateKey :: "string option \<Rightarrow> string \<Rightarrow> string \<Rightarrow> string" where
  "generateKey prefix ident suffix =
     join ''.'' (filter (\<lambda>p. p \<noteq> []) [or_default prefix [], ident, suffix])"

section \<open>RemoteTableService: the spreadsheet and the response envelope\<close>

text \<open>
  A sheet is the list of its rows, the header row first. A row has the four
  columns named by the header; cells hold strings. The spreadsheet service keeps
  one sheet per name. \<open>server_now\<close> is the text that \<open>new Date().toISOString()\<close>
  yields on the server; \<open>api_fault\<close> holds the message of the error that
  \<open>SpreadsheetApp.openById\<close> throws while the service is failing; \<open>runtime\<close> is
  the runtime in which the script runs.
\<close>

record row =
  col_key :: string
  col_value :: string
  col_timestamp :: string
  col_lastModified :: string

record server =
  sheets :: "string \<rightharpoonup> row list"
  server_now :: string
  api_fault :: "string option"
  runtime :: runtime

text \<open>The request parameters: \<open>e.parameter\<close>, or the parsed body of a POST.\<close>

type_synonym params = "string \<rightharpoonup> string"

text \<open>
  The response object built by \<open>createResponse\<close>. A field that holds
  \<open>JUndefined\<close> is absent: the object is only ever read after
  \<open>JSON.stringify\<close>, which leaves such a property out.
\<close>

record envelope =
  resp_status :: string
  resp_timestamp :: string
  resp_data :: jsval
  resp_error :: jsval
  resp_message :: jsval

text \<open>
  The text \<open>JSON.stringify(response)\<close>, kept as the object it denotes;
  \<open>JSON_parse\<close> reads it back, as \<open>response.json()\<close> does on the client.
\<close>

datatype json_text = JSON_text envelope

fun JSON_parse :: "json_text \<Rightarrow> envelope" where
  "JSON_parse (JSON_text e) = e"

text \<open>
  What \<open>ContentService.createTextOutput(text).setMimeType(mime)\<close> returns: a
  \<open>TextOutput\<close> object, read through its methods \<open>getContent\<close> and
  \<open>getMimeType\<close>. It has no data property of its own, so that reading a
  property such as \<open>status\<close> or \<open>data\<close> from it gives \<open>undefined\<close>.
\<close>

datatype text_output = TextOutput (getContent: json_text) (getMimeType: string)

definition TextOutput_field :: "text_output \<Rightarrow> string \<Rightarrow> jsval" where
  "TextOutput_field out name = JUndefined"

definition createResponse :: "server \<Rightarrow> string \<Rightarrow> jsval \<Rightarrow> jsval \<Rightarrow> text_output" where
  "createResponse ss status d error =
     (let response = \<lparr> resp_status = status, resp_timestamp = server_now ss,
                         resp_data = JUndefined, resp_error = JUndefined,
                         resp_message = JUndefined \<rparr>;
          response' =
            (if status = ''success'' then response \<lparr> resp_data := d \<rparr>
             else if status = ''error''
               then response \<lparr> resp_error := (if truthy error then error else d) \<rparr>
             else if status = ''not_found'' then response \<lparr> resp_message := d \<rparr>
             else response)
      in TextOutput (JSON_text response') ''application/json'')"

text \<open>The header row, and what \<open>getValues\<close> gives for a cell that was never written.\<close>

definition headers :: row where
  "headers = \<lparr> col_key = ''key'', col_value = ''value'',
                col_timestamp = ''timestamp'', col_lastModified = ''lastModified'' \<rparr>"

definition blank_row :: row where
  "blank_row = \<lparr> col_key = [], col_value = [], col_timestamp = [], col_lastModified = [] \<rparr>"

text \<open>
  \<open>getOrCreateSheet\<close>: opens the spreadsheet, which throws while the service is
  failing, and returns the sheet of that name, created with its header row when
  it does not exist yet. The sheet is handed on by its name.
\<close>

definition getOrCreateSheet :: "server \<Rightarrow> string \<Rightarrow> thrown + (string \<times> server)" where
  "getOrCreateSheet ss sheetName =
     (case api_fault ss of
        Some msg \<Rightarrow> Inl (new_Error msg)
      | None \<Rightarrow>
          (case sheets ss sheetName of
             Some rows \<Rightarrow> Inr (sheetName, ss)
           | None \<Rightarrow> Inr (sheetName, ss \<lparr> sheets := (sheets ss)(sheetName \<mapsto> [headers]) \<rparr>)))"

text \<open>\<open>sheet.getDataRange().getValues()\<close>.\<close>

definition getValues :: "server \<Rightarrow> string \<Rightarrow> row list" where
  "getValues ss sheet = (case sheets ss sheet of None \<Rightarrow> [] | Some rows \<Rightarrow> rows)"

text \<open>
  \<open>sheet.getRange(r, 1, 1, 4).setValues([rowData])\<close> with the position counted
  from 0, \<open>sheet.appendRow(rowData)\<close> and \<open>sheet.deleteRow(r)\<close>, again from 0.
\<close>

definition setRow :: "server \<Rightarrow> string \<Rightarrow> nat \<Rightarrow> row \<Rightarrow> server" where
  "setRow ss sheet i rowData =
     (let rows = getValues ss sheet;
          rows' = (if i < length rows then rows[i := rowData]
                   else rows @ replicate (i - length rows) blank_row @ [rowData])
      in ss \<lparr> sheets := (sheets ss)(sheet \<mapsto> rows') \<rparr>)"

definition appendRow :: "server \<Rightarrow> string \<Rightarrow> row \<Rightarrow> server" where
  "appendRow ss sheet rowData =
     ss \<lparr> sheets := (sheets ss)(sheet \<mapsto> getValues ss sheet @ [rowData]) \<rparr>"

definition deleteRow :: "server \<Rightarrow> string \<Rightarrow> nat \<Rightarrow> server" where
  "deleteRow ss sheet i =
     (let rows = getValues ss sheet
      in ss \<lparr> sheets := (sheets ss)(sheet \<mapsto> take i rows @ drop (Suc i) rows) \<rparr>)"

text \<open>
  The search loop shared by the handlers,
  \<open>for (let i = 1; i < data.length; i++) if (data[i][0] === key) ...\<close>:
  \<open>find_from i key rows\<close> is the position of the first row with that key, where
  \<open>rows\<close> are the rows from position \<open>i\<close> on.
\<close>

fun find_from :: "nat \<Rightarrow> string \<Rightarrow> row list \<Rightarrow> nat option" where
  "find_from i key [] = None"
| "find_from i key (r # rs) = (if col_key r = key then Some i else find_from (Suc i) key rs)"

section \<open>RemoteTableService: the handlers\<close>

definition handlePing :: "server \<Rightarrow> thrown + (text_output \<times> server)" where
  "handlePing ss =
     Inr (createResponse ss ''success''
            (JObj [(''message'', JStr ''GAS Web App is running''),
                   (''version'', JStr ''1.0''),
                   (''timestamp'', JStr (server_now ss))]) JNull, ss)"

definition handleSetItem :: "server \<Rightarrow> params \<Rightarrow> thrown + (text_output \<times> server)" where
  "handleSetItem ss params =
     try_catch
       (case params ''key'' of
          None \<Rightarrow> Inr (createResponse ss ''error'' (JStr ''Key is required'') JNull, ss)
        | Some key \<Rightarrow>
            if key = [] then Inr (createResponse ss ''error'' (JStr ''Key is required'') JNull, ss)
            else
              (case params ''value'' of
                 None \<Rightarrow> Inr (createResponse ss ''error'' (JStr ''Value is required'') JNull, ss)
               | Some val \<Rightarrow>
                   (case getOrCreateSheet ss (or_default (params ''storeId'') ''default'') of
                      Inl e \<Rightarrow> Inl e
                    | Inr (sheet, ss1) \<Rightarrow>
                        (let data = getValues ss1 sheet;
                             ss2 = (if length data = 0 then setRow ss1 sheet 0 headers else ss1);
                             rowIndex = find_from 1 key (drop 1 data);
                             now = server_now ss;
                             rowData = \<lparr> col_key = key, col_value = val,
                                         col_timestamp = or_default (params ''timestamp'') now,
                                         col_lastModified = now \<rparr>;
                             ss3 = (case rowIndex of
                                      Some i \<Rightarrow> setRow ss2 sheet i rowData
                                    | None \<Rightarrow> appendRow ss2 sheet rowData)
                         in Inr (createResponse ss3 ''success''
                                   (JObj [(''key'', JStr key), (''saved'', JBool True),
                                          (''timestamp'', JStr now)]) JNull, ss3)))))
       (\<lambda>error. Inr (createResponse ss ''error''
                        (JStr (''Failed to save item: '' @ err_message error)) JNull, ss))"

definition handleGetItem :: "server \<Rightarrow> params \<Rightarrow> thrown + (text_output \<times> server)" where
  "handleGetItem ss params =
     try_catch
       (case params ''key'' of
          None \<Rightarrow> Inr (createResponse ss ''error'' (JStr ''Key is required'') JNull, ss)
        | Some key \<Rightarrow>
            if key = [] then Inr (createResponse ss ''error'' (JStr ''Key is required'') JNull, ss)
            else
              (case getOrCreateSheet ss (or_default (params ''storeId'') ''default'') of
                 Inl e \<Rightarrow> Inl e
               | Inr (sheet, ss1) \<Rightarrow>
                   (let data = getValues ss1 sheet
                    in if length data \<le> 1
                       then Inr (createResponse ss1 ''not_found'' (JStr ''No data found'') JNull, ss1)
                       else
                         (case find_from 1 key (drop 1 data) of
                            Some i \<Rightarrow>
                              Inr (createResponse ss1 ''success'' (JStr (col_value (data ! i))) JNull, ss1)
                          | None \<Rightarrow>
                              Inr (createResponse ss1 ''not_found''
                                     (JStr (''Key not found: '' @ key)) JNull, ss1)))))
       (\<lambda>error. Inr (createResponse ss ''error''
                        (JStr (''Failed to get item: '' @ err_message error)) JNull, ss))"

definition handleRemoveItem :: "server \<Rightarrow> params \<Rightarrow> thrown + (text_output \<times> server)" where
  "handleRemoveItem ss params =
     try_catch
       (case params ''key'' of
          None \<Rightarrow> Inr (createResponse ss ''error'' (JStr ''Key is required'') JNull, ss)
        | Some key \<Rightarrow>
            if key = [] then Inr (createResponse ss ''error'' (JStr ''Key is required'') JNull, ss)
            else
              (case getOrCreateSheet ss (or_default (params ''storeId'') ''default'') of
                 Inl e \<Rightarrow> Inl e
               | Inr (sheet, ss1) \<Rightarrow>
                   (let data = getValues ss1 sheet
                    in if length data \<le> 1
                       then Inr (createResponse ss1 ''not_found'' (JStr ''No data found'') JNull, ss1)
                       else
                         (case find_from 1 key (drop 1 data) of
                            Some i \<Rightarrow>
                              (let ss2 = deleteRow ss1 sheet i
                               in Inr (createResponse ss2 ''success''
                                         (JObj [(''key'', JStr key), (''removed'', JBool True)]) JNull,
                                       ss2))
                          | None \<Rightarrow>
                              Inr (createResponse ss1 ''not_found''
                                     (JStr (''Key not found: '' @ key)) JNull, ss1)))))
       (\<lambda>error. Inr (createResponse ss ''error''
                        (JStr (''Failed to remove item: '' @ err_message error)) JNull, ss))"

text \<open>An element of the answer of \<open>getAllItems\<close>.\<close>

definition item_of_row :: "row \<Rightarrow> jsval" where
  "item_of_row r =
     JObj [(''key'', JStr (col_key r)), (''value'', JStr (col_value r)),
           (''timestamp'', JStr (col_timestamp r)),
           (''lastModified'', JStr (col_lastModified r))]"

definition handleGetAllItems :: "server \<Rightarrow> params \<Rightarrow> thrown + (text_output \<times> server)" where
  "handleGetAllItems ss params =
     try_catch
       (case getOrCreateSheet ss (or_default (params ''storeId'') ''default'') of
          Inl e \<Rightarrow> Inl e
        | Inr (sheet, ss1) \<Rightarrow>
            (let data = getValues ss1 sheet
             in if length data \<le> 1
                then Inr (createResponse ss1 ''success'' (JArr []) JNull, ss1)
                else
                  (let items =
                         map item_of_row
                           (filter (\<lambda>r. falsy (params ''prefix'')
                                          \<or> startsWith (col_key r) (or_default (params ''prefix'') []))
                              (drop 1 data))
                   in Inr (createResponse ss1 ''success'' (JArr items) JNull, ss1))))
       (\<lambda>error. Inr (createResponse ss ''error''
                        (JStr (''Failed to get all items: '' @ err_message error)) JNull, ss))"

text \<open>
  An element of the answer of \<open>getDateRange\<close>: the row with the date text cut
  from its key.
\<close>

record range_item =
  item_key :: string
  item_value :: string
  item_date :: string
  item_timestamp :: string
  item_lastModified :: string

definition json_of_range_item :: "range_item \<Rightarrow> jsval" where
  "json_of_range_item it =
     JObj [(''key'', JStr (item_key it)), (''value'', JStr (item_value it)),
           (''date'', JStr (item_date it)),
           (''timestamp'', JStr (item_timestamp it)),
           (''lastModified'', JStr (item_lastModified it))]"

text \<open>
  The loop of \<open>handleGetDateRange\<close> over the rows after the header: a row is
  kept when its key starts with \<open>yousei:\<close>, has at least three parts between
  colons, and the date read from the third part lies between \<open>start\<close> and \<open>end\<close>.
\<close>

fun collect_range :: "runtime \<Rightarrow> jsdate \<Rightarrow> jsdate \<Rightarrow> row list \<Rightarrow> range_item list" where
  "collect_range rt start end' [] = []"
| "collect_range rt start end' (r # rs) =
     (let key = col_key r
      in if startsWith key ''yousei:'' then
           (let parts = split_on CHR '':'' key
            in if length parts \<ge> 3 then
                 (let dateStr = parts ! 2;
                      itemDate = new_Date rt (Some dateStr)
                  in if date_ge itemDate start \<and> date_le itemDate end'
                     then \<lparr> item_key = key, item_value = col_value r, item_date = dateStr,
                            item_timestamp = col_timestamp r,
                            item_lastModified = col_lastModified r \<rparr>
                          # collect_range rt start end' rs
                     else collect_range rt start end' rs)
               else collect_range rt start end' rs)
         else collect_range rt start end' rs)"

text \<open>
  \<open>items.sort((a, b) => a.date.localeCompare(b.date))\<close>: a stable sort on the
  date text, in the order of \<open>localeCompare\<close>.
\<close>

definition sort_by_date :: "runtime \<Rightarrow> range_item list \<Rightarrow> range_item list" where
  "sort_by_date rt items = sort_key (\<lambda>it. collation rt (item_date it)) items"

definition handleGetDateRange :: "server \<Rightarrow> params \<Rightarrow> thrown + (text_output \<times> server)" where
  "handleGetDateRange ss params =
     try_catch
       (case getOrCreateSheet ss (or_default (params ''storeId'') ''default'') of
          Inl e \<Rightarrow> Inl e
        | Inr (sheet, ss1) \<Rightarrow>
            (let data = getValues ss1 sheet
             in if length data \<le> 1
                then Inr (createResponse ss1 ''success'' (JArr []) JNull, ss1)
                else
                  (let start = new_Date (runtime ss1) (params ''startDate'');
                       end' = new_Date (runtime ss1) (params ''endDate'');
                       items = collect_range (runtime ss1) start end' (drop 1 data)
                   in Inr (createResponse ss1 ''success''
                             (JArr (map json_of_range_item (sort_by_date (runtime ss1) items)))
                             JNull, ss1))))
       (\<lambda>error. Inr (createResponse ss ''error''
                        (JStr (''Failed to get date range: '' @ err_message error)) JNull, ss))"

text \<open>
  The parameter object \<open>{ key: key, storeId: storeId }\<close> that
  \<open>handleGetPreviousYearData\<close> passes to \<open>handleGetItem\<close>.
\<close>

definition item_params :: "string \<Rightarrow> string option \<Rightarrow> params" where
  "item_params key storeId = (\<lambda>name. if name = ''key'' then Some key
                                      else if name = ''storeId'' then storeId else None)"

text \<open>The key \<open>yousei:<storeId || 'default'>:<first ten characters of the ISO text>\<close>.\<close>

definition yousei_key :: "string option \<Rightarrow> string \<Rightarrow> string" where
  "yousei_key storeId isoText = ''yousei:'' @ or_default storeId ''default'' @ '':'' @ take 10 isoText"

text \<open>
  The loop \<open>for (let offset = 1; offset <= 3; offset++)\<close> of
  \<open>handleGetPreviousYearData\<close>, over the offsets still to try. It gives the
  response returned from inside the loop, or \<open>None\<close> when the loop runs out. Each
  result of \<open>handleGetItem\<close> is the \<open>TextOutput\<close> object that \<open>createResponse\<close>
  built, and the loop reads \<open>status\<close> and \<open>data\<close> off that object.
\<close>

fun scan_offsets ::
  "server \<Rightarrow> string option \<Rightarrow> jsdate \<Rightarrow> int list \<Rightarrow> thrown + (text_output option \<times> server)" where
  "scan_offsets ss storeId prevYear [] = Inr (None, ss)"
| "scan_offsets ss storeId prevYear (offset # rest) =
     (case toISOString (setDate prevYear (map_option (\<lambda>d. d - offset) (getDate prevYear))) of
        Inl e \<Rightarrow> Inl e
      | Inr prevIso \<Rightarrow>
          (case handleGetItem ss (item_params (yousei_key storeId prevIso) storeId) of
             Inl e \<Rightarrow> Inl e
           | Inr (prevResult, ss1) \<Rightarrow>
               if TextOutput_field prevResult ''status'' = JStr ''success''
               then Inr (Some (createResponse ss1 ''success''
                                 (TextOutput_field prevResult ''data'') JNull), ss1)
               else
                 (case toISOString (setDate prevYear (map_option (\<lambda>d. d + offset) (getDate prevYear))) of
                    Inl e \<Rightarrow> Inl e
                  | Inr nextIso \<Rightarrow>
                      (case handleGetItem ss1 (item_params (yousei_key storeId nextIso) storeId) of
                         Inl e \<Rightarrow> Inl e
                       | Inr (nextResult, ss2) \<Rightarrow>
                           if TextOutput_field nextResult ''status'' = JStr ''success''
                           then Inr (Some (createResponse ss2 ''success''
                                             (TextOutput_field nextResult ''data'') JNull), ss2)
                           else scan_offsets ss2 storeId prevYear rest))))"

declare scan_offsets.simps [simp del]

definition handleGetPreviousYearData :: "server \<Rightarrow> params \<Rightarrow> thrown + (text_output \<times> server)" where
  "handleGetPreviousYearData ss params =
     try_catch
       (let storeId = params ''storeId'';
            target = new_Date (runtime ss) (params ''targetDate'');
            prevYear = setFullYear target (map_option (\<lambda>y. y - 1) (getFullYear target))
        in case toISOString prevYear of
             Inl e \<Rightarrow> Inl e
           | Inr prevIso \<Rightarrow>
               (case handleGetItem ss (item_params (yousei_key storeId prevIso) storeId) of
                  Inl e \<Rightarrow> Inl e
                | Inr (result, ss1) \<Rightarrow>
                    if TextOutput_field result ''status'' = JStr ''success''
                    then Inr (createResponse ss1 ''success'' (TextOutput_field result ''data'') JNull, ss1)
                    else
                      (case scan_offsets ss1 storeId prevYear [1, 2, 3] of
                         Inl e \<Rightarrow> Inl e
                       | Inr (Some response, ss2) \<Rightarrow> Inr (response, ss2)
                       | Inr (None, ss2) \<Rightarrow>
                           Inr (createResponse ss2 ''not_found''
                                  (JStr ''Previous year data not found'') JNull, ss2))))
       (\<lambda>error. Inr (createResponse ss ''error''
                        (JStr (''Failed to get previous year data: '' @ err_message error)) JNull, ss))"

text \<open>
  \<open>handleCreateBackup\<close>: the sheet is copied under the name
  \<open>backup_<storeId>_<YYYYMMDD>\<close>, in place of a sheet of that name if there is one.
\<close>

definition handleCreateBackup :: "server \<Rightarrow> params \<Rightarrow> thrown + (text_output \<times> server)" where
  "handleCreateBackup ss params =
     try_catch
       (case getOrCreateSheet ss (or_default (params ''storeId'') ''default'') of
          Inl e \<Rightarrow> Inl e
        | Inr (sheet, ss1) \<Rightarrow>
            (let backupSheetName =
                   ''backup_'' @ or_default (params ''storeId'') ''default'' @ ''_''
                     @ filter (\<lambda>c. c \<noteq> CHR ''-'') (take 10 (server_now ss1))
             in case api_fault ss1 of
                  Some msg \<Rightarrow> Inl (new_Error msg)
                | None \<Rightarrow>
                    (let ss2 = ss1 \<lparr> sheets := (sheets ss1)(backupSheetName := None) \<rparr>;
                         ss3 = ss2 \<lparr> sheets := (sheets ss2)(backupSheetName \<mapsto> getValues ss2 sheet) \<rparr>
                     in Inr (createResponse ss3 ''success''
                               (JObj [(''backupSheet'', JStr backupSheetName),
                                      (''timestamp'', JStr (server_now ss3))]) JNull, ss3))))
       (\<lambda>error. Inr (createResponse ss ''error''
                        (JStr (''Failed to create backup: '' @ err_message error)) JNull, ss))"

text \<open>
  The loop of \<open>handleGetSyncStatus\<close>: the latest \<open>lastModified\<close> cell so far,
  \<open>None\<close> while it is still \<open>null\<close>. The item count is the length of a
  JavaScript array, which is below \<open>2^32\<close> and prints as its decimal digits.
\<close>

definition newer_modified :: "runtime \<Rightarrow> string option \<Rightarrow> row \<Rightarrow> string option" where
  "newer_modified rt lastModified r =
     (let modified = col_lastModified r
      in if modified \<noteq> []
            \<and> (falsy lastModified
                \<or> date_gt (new_Date rt (Some modified)) (new_Date rt lastModified))
         then Some modified else lastModified)"

definition handleGetSyncStatus :: "server \<Rightarrow> params \<Rightarrow> thrown + (text_output \<times> server)" where
  "handleGetSyncStatus ss params =
     try_catch
       (case getOrCreateSheet ss (or_default (params ''storeId'') ''default'') of
          Inl e \<Rightarrow> Inl e
        | Inr (sheet, ss1) \<Rightarrow>
            (let data = getValues ss1 sheet;
                 itemCount = max 0 (int (length data) - 1);
                 lastModified = foldl (newer_modified (runtime ss1)) None (drop 1 data)
             in Inr (createResponse ss1 ''success''
                       (JObj [(''lastSync'', (case lastModified of None \<Rightarrow> JNull | Some m \<Rightarrow> JStr m)),
                              (''itemCount'', JNum (int_to_string itemCount)),
                              (''sheetName'', JStr sheet)]) JNull, ss1)))
       (\<lambda>error. Inr (createResponse ss ''error''
                        (JStr (''Failed to get sync status: '' @ err_message error)) JNull, ss))"

section \<open>RemoteTableService: the request router\<close>

text \<open>The title of the service, a text in Japanese, as its UTF-8 bytes.\<close>

definition api_title :: string where
  "api_title = [CHR 0xE6, CHR 0xB4, CHR 0x8B, CHR 0xE7, CHR 0x94, CHR 0x9F, CHR 0xE3, CHR 0x83,
                CHR 0x8E, CHR 0xE3, CHR 0x83, CHR 0xBC, CHR 0xE3, CHR 0x83, CHR 0x88]
               @ '' GAS Web API''"

definition api_info :: jsval where
  "api_info =
     JObj [(''message'', JStr api_title),
           (''version'', JStr ''1.0''),
           (''usage'', JStr ''Add ?action=ping to test the connection, or use POST with JSON data''),
           (''availableActions'',
              JArr [JStr ''ping - Connection test'',
                    JStr ''setItem - Save data'',
                    JStr ''getItem - Retrieve data'',
                    JStr ''removeItem - Delete data'',
                    JStr ''getAllItems - Get all items'',
                    JStr ''getDateRange - Get data by date range'',
                    JStr ''getPreviousYearData - Get previous year data'',
                    JStr ''createBackup - Create backup'',
                    JStr ''getSyncStatus - Get sync status'']),
           (''example'', JStr ''Add ?action=ping to the URL to test the connection'')]"

definition handleRequest :: "server \<Rightarrow> params \<Rightarrow> thrown + (text_output \<times> server)" where
  "handleRequest ss params =
     try_catch
       (case params ''action'' of
          None \<Rightarrow> Inr (createResponse ss ''success'' api_info JNull, ss)
        | Some action \<Rightarrow>
            if action = [] then Inr (createResponse ss ''success'' api_info JNull, ss)
            else if action = ''ping'' then handlePing ss
            else if action = ''setItem'' then handleSetItem ss params
            else if action = ''getItem'' then handleGetItem ss params
            else if action = ''removeItem'' then handleRemoveItem ss params
            else if action = ''getAllItems'' then handleGetAllItems ss params
            else if action = ''getDateRange'' then handleGetDateRange ss params
            else if action = ''getPreviousYearData'' then handleGetPreviousYearData ss params
            else if action = ''createBackup'' then handleCreateBackup ss params
            else if action = ''getSyncStatus'' then handleGetSyncStatus ss params
            else Inr (createResponse ss ''error'' (JStr (''Unknown action: '' @ action)) JNull, ss))
       (\<lambda>error. Inr (createResponse ss ''error''
                        (JStr (''Server error: '' @ err_message error)) JNull, ss))"

text \<open>
  The two entry points. The body of a POST is a text: either the JSON of a
  parameter object, or a text on which \<open>JSON.parse\<close> throws, with the message
  of that error.
\<close>

datatype post_contents = Parsable params | Unparsable string

definition doGet :: "server \<Rightarrow> params \<Rightarrow> thrown + (text_output \<times> server)" where
  "doGet ss parameter = handleRequest ss parameter"

definition doPost :: "server \<Rightarrow> post_contents \<Rightarrow> thrown + (text_output \<times> server)" where
  "doPost ss contents =
     try_catch
       (case contents of
          Unparsable msg \<Rightarrow> Inl (JsError ''SyntaxError'' msg)
        | Parsable postData \<Rightarrow> handleRequest ss postData)
       (\<lambda>error. Inr (createResponse ss ''error''
                        (JStr (''Invalid JSON in POST data: '' @ err_message error)) JNull, ss))"

section \<open>GASStorage: the client of the remote table\<close>

text \<open>
  The fields of a \<open>GASStorage\<close> object. \<open>webAppUrl\<close> and \<open>storeId\<close> are \<open>null\<close>
  until \<open>init\<close> sets them; \<open>init\<close> sets \<open>initialized\<close> once a \<open>ping\<close> has been
  answered with success. \<open>retryCount\<close> and \<open>timeout\<close> come from \<open>BaseStorage\<close>
  (3 attempts and 10000 milliseconds unless configured otherwise).
\<close>

record gas_storage =
  gas_webAppUrl :: "string option"
  gas_storeId :: "string option"
  gas_initialized :: bool
  gas_retryCount :: nat
  gas_timeout :: nat

text \<open>
  What surrounds the client: the remote service, the network and the clock. Each
  call of \<open>fetch\<close> takes the next event of the network: the request is delivered
  and answered, or the timer aborts it first, or \<open>fetch\<close> rejects with an error
  of a given name and message, or the answer has a status that is not ok, or
  its body is not JSON (with the message of the syntax error). When no event is
  left the network delivers. \<open>w_slept\<close> records the delays the client has waited
  between attempts, in order; \<open>w_now\<close> is the text of
  \<open>new Date().toISOString()\<close> on the client.

  The error of an aborted \<open>fetch\<close> is a \<open>DOMException\<close> of name \<open>AbortError\<close>, as
  is every error of that name that \<open>fetch\<close> or \<open>response.json()\<close> rejects with.
\<close>

datatype net_event =
    Deliver
  | Abort
  | Reject string string
  | HttpStatus int string
  | NotJson string

record world =
  w_server :: server
  w_net :: "net_event list"
  w_slept :: "nat list"
  w_now :: string

text \<open>The parameter \<open>method\<close> of \<open>makeRequest\<close>, written \<open>verb\<close> below.\<close>

datatype http_method = GET | POST

text \<open>
  A \<open>try\<close> statement around code that acts on the world: the \<open>catch\<close> block runs
  in the state that the body had reached when it threw.
\<close>

definition try_catch_w ::
  "(thrown + 'a) \<times> 'w \<Rightarrow> (thrown \<Rightarrow> 'w \<Rightarrow> (thrown + 'a) \<times> 'w) \<Rightarrow> (thrown + 'a) \<times> 'w" where
  "try_catch_w body handler =
     (case body of
        (Inl e, w) \<Rightarrow> handler e w
      | (Inr v, w) \<Rightarrow> (Inr v, w))"

text \<open>
  The request reaches the service: a GET through \<open>doGet\<close> with the query
  parameters, a POST through \<open>doPost\<close> with the JSON of the data; the client
  reads the body with \<open>response.json()\<close>. Should the service throw, its answer
  would be an error page, which is not JSON.
\<close>

definition deliver :: "http_method \<Rightarrow> params \<Rightarrow> world \<Rightarrow> (thrown + envelope) \<times> world" where
  "deliver verb d w =
     (case (case verb of
              GET \<Rightarrow> doGet (w_server w) d
            | POST \<Rightarrow> doPost (w_server w) (Parsable d)) of
        Inr (out, ss') \<Rightarrow> (Inr (JSON_parse (getContent out)), w \<lparr> w_server := ss' \<rparr>)
      | Inl e \<Rightarrow> (Inl (JsError ''SyntaxError'' ''Unexpected token <''), w))"

text \<open>
  The \<open>try\<close> block of \<open>makeRequest\<close>: \<open>fetch\<close>, the test of \<open>response.ok\<close> and
  \<open>response.json()\<close>.
\<close>

definition send_request :: "http_method \<Rightarrow> params \<Rightarrow> world \<Rightarrow> (thrown + envelope) \<times> world" where
  "send_request verb d w =
     (case w_net w of
        [] \<Rightarrow> deliver verb d w
      | ev # rest \<Rightarrow>
          (let w1 = w \<lparr> w_net := rest \<rparr>
           in case ev of
                Deliver \<Rightarrow> deliver verb d w1
              | Abort \<Rightarrow> (Inl (JsError ''AbortError'' ''The operation was aborted.''), w1)
              | Reject name msg \<Rightarrow> (Inl (JsError name msg), w1)
              | HttpStatus code statusText \<Rightarrow>
                  (Inl (new_Error (''HTTP '' @ int_to_string code @ '': '' @ statusText)), w1)
              | NotJson msg \<Rightarrow> (Inl (JsError ''SyntaxError'' msg), w1)))"

text \<open>
  The message of the \<open>TypeError\<close> that an assignment to a property with a getter
  and no setter throws in strict code, as V8 words it.
\<close>

definition getter_only_message :: string where
  "getter_only_message
     = ''Cannot set property message of #<DOMException> which has only a getter''"

text \<open>
  \<open>GASStorage.makeRequest\<close>. The \<open>catch\<close> block first assigns the message
  \<open>Request timeout\<close> to an error of name \<open>AbortError\<close>. That error is a
  \<open>DOMException\<close>, whose \<open>message\<close> has a getter only, and the body of a class is
  strict code: the assignment throws a \<open>TypeError\<close>, which leaves \<open>makeRequest\<close>
  from inside its \<open>catch\<close> block. For any other error: while \<open>retryCount\<close> is
  below the limit, a message that includes \<open>timeout\<close> or \<open>network\<close> makes the
  client wait \<open>1000 * (retryCount + 1)\<close> milliseconds and send the request
  again; otherwise the error is thrown on.
\<close>

function makeRequest ::
  "gas_storage \<Rightarrow> http_method \<Rightarrow> params \<Rightarrow> nat \<Rightarrow> world \<Rightarrow> (thrown + envelope) \<times> world" where
  "makeRequest st verb d retryCount w =
     (if falsy (gas_webAppUrl st) then (Inl (new_Error ''Web App URL not configured''), w)
      else
        (case send_request verb d w of
           (r, w1) \<Rightarrow>
             (case r of
                Inr result \<Rightarrow> (Inr result, w1)
              | Inl error \<Rightarrow>
                  if err_name error = ''AbortError''
                  then (Inl (JsError ''TypeError'' getter_only_message), w1)
                  else if retryCount < gas_retryCount st
                         \<and> (includes_str (err_message error) ''timeout''
                            \<or> includes_str (err_message error) ''network'')
                  then makeRequest st verb d (Suc retryCount)
                         (w1 \<lparr> w_slept := w_slept w1 @ [1000 * (retryCount + 1)] \<rparr>)
                  else (Inl error, w1))))"
  by pat_completeness auto
termination
  by (relation "measure (\<lambda>(st, verb, d, retryCount, w). gas_retryCount st - retryCount)") auto

declare makeRequest.simps [simp del]

text \<open>
  How a request parameter that may be \<open>null\<close> travels: in a GET, \<open>makeRequest\<close>
  writes \<open>JSON.stringify(null)\<close>, the text \<open>null\<close>, into the query; in a POST the
  JSON body carries \<open>null\<close>, which the service reads as a missing value.
\<close>

definition query_value :: "string option \<Rightarrow> string option" where
  "query_value x = Some (case x of None \<Rightarrow> ''null'' | Some s \<Rightarrow> s)"

text \<open>
  \<open>GASStorage.setItem\<close> (and \<open>save\<close>, which calls it): the value is sent as it
  is when it is a string, and as its JSON text otherwise.
\<close>

definition setItem :: "gas_storage \<Rightarrow> string \<Rightarrow> jsval \<Rightarrow> world \<Rightarrow> (thrown + bool) \<times> world" where
  "setItem st key val w =
     try_catch_w
       (if \<not> gas_initialized st then (Inl (new_Error ''GAS Storage not initialized''), w)
        else
          (case validateData val of
             Inl e \<Rightarrow> (Inl e, w)
           | Inr u \<Rightarrow>
               (let storageKey = generateKey (gas_storeId st) key []
                in case makeRequest st POST
                          ([''action'' \<mapsto> ''setItem'',
                            ''key'' \<mapsto> storageKey,
                            ''value'' \<mapsto> (case val of JStr s \<Rightarrow> s | _ \<Rightarrow> JSON_stringify val),
                            ''timestamp'' \<mapsto> w_now w]
                           (''storeId'' := gas_storeId st)) 0 w of
                     (Inl e, w1) \<Rightarrow> (Inl e, w1)
                   | (Inr result, w1) \<Rightarrow>
                       if resp_status result = ''success'' then (Inr True, w1)
                       else (Inl (new_Error (if truthy (resp_error result)
                                             then to_string (resp_error result)
                                             else ''Save failed'')), w1))))
       (\<lambda>error w'. (Inl error, w'))"

definition save :: "gas_storage \<Rightarrow> string \<Rightarrow> jsval \<Rightarrow> world \<Rightarrow> (thrown + bool) \<times> world" where
  "save st key d w = setItem st key d w"

text \<open>
  \<open>GASStorage.getItem\<close> (and \<open>load\<close>): whatever is thrown inside is caught and
  \<open>null\<close> is returned.
\<close>

definition getItem :: "gas_storage \<Rightarrow> string \<Rightarrow> world \<Rightarrow> (thrown + jsval) \<times> world" where
  "getItem st key w =
     try_catch_w
       (if \<not> gas_initialized st then (Inl (new_Error ''GAS Storage not initialized''), w)
        else
          (let storageKey = generateKey (gas_storeId st) key []
           in case makeRequest st GET
                     ([''action'' \<mapsto> ''getItem'', ''key'' \<mapsto> storageKey]
                      (''storeId'' := query_value (gas_storeId st))) 0 w of
                (Inl e, w1) \<Rightarrow> (Inl e, w1)
              | (Inr result, w1) \<Rightarrow>
                  if resp_status result = ''success'' then (Inr (resp_data result), w1)
                  else if resp_status result = ''not_found'' then (Inr JNull, w1)
                  else (Inl (new_Error (if truthy (resp_error result)
                                        then to_string (resp_error result)
                                        else ''Get failed'')), w1)))
       (\<lambda>error w'. (Inr JNull, w'))"

definition load :: "gas_storage \<Rightarrow> string \<Rightarrow> world \<Rightarrow> (thrown + jsval) \<times> world" where
  "load st key w = getItem st key w"

text \<open>\<open>GASStorage.removeItem\<close>: the key goes out as the caller gave it.\<close>

definition removeItem :: "gas_storage \<Rightarrow> string \<Rightarrow> world \<Rightarrow> (thrown + bool) \<times> world" where
  "removeItem st key w =
     try_catch_w
       (if \<not> gas_initialized st then (Inl (new_Error ''GAS Storage not initialized''), w)
        else
          (case makeRequest st POST
                  ([''action'' \<mapsto> ''removeItem'', ''key'' \<mapsto> key]
                   (''storeId'' := gas_storeId st)) 0 w of
             (Inl e, w1) \<Rightarrow> (Inl e, w1)
           | (Inr result, w1) \<Rightarrow>
               if resp_status result = ''success'' then (Inr True, w1)
               else (Inl (new_Error (if truthy (resp_error result)
                                     then to_string (resp_error result)
                                     else ''Remove failed'')), w1)))
       (\<lambda>error w'. (Inl error, w'))"

text \<open>
  \<open>GASStorage.getAllItems\<close>: \<open>result.data || []\<close> on success; whatever is thrown
  inside is caught and the empty array is returned.
\<close>

definition getAllItems :: "gas_storage \<Rightarrow> string \<Rightarrow> world \<Rightarrow> (thrown + jsval) \<times> world" where
  "getAllItems st prefix w =
     try_catch_w
       (if \<not> gas_initialized st then (Inl (new_Error ''GAS Storage not initialized''), w)
        else
          (case makeRequest st GET
                  ([''action'' \<mapsto> ''getAllItems'', ''prefix'' \<mapsto> prefix]
                   (''storeId'' := query_value (gas_storeId st))) 0 w of
             (Inl e, w1) \<Rightarrow> (Inl e, w1)
           | (Inr result, w1) \<Rightarrow>
               if resp_status result = ''success''
               then (Inr (if truthy (resp_data result) then resp_data result else JArr []), w1)
               else (Inl (new_Error (if truthy (resp_error result)
                                     then to_string (resp_error result)
                                     else ''GetAll failed'')), w1)))
       (\<lambda>error w'. (Inr (JArr []), w'))"

section \<open>GDriveStorage: one JSON file per key, with the local store as fallback\<close>















section \<open>The date-range query in words\<close>







section \<open>The dates probed by the previous-year lookup\<close>

text \<open>
  The seven dates whose text \<open>handleGetPreviousYearData\<close> builds, in the order in
  which it builds them: the day one year before the target, then one, two and
  three days before and after it, the earlier day first.
\<close>

definition previous_year :: "jsdate \<Rightarrow> jsdate" where
  "previous_year target = setFullYear target (map_option (\<lambda>y. y - 1) (getFullYear target))"

definition offset_dates :: "jsdate \<Rightarrow> int list \<Rightarrow> jsdate list" where
  "offset_dates prevYear offsets =
     concat (map (\<lambda>offset. [setDate prevYear (map_option (\<lambda>d. d - offset) (getDate prevYear)),
                            setDate prevYear (map_option (\<lambda>d. d + offset) (getDate prevYear))])
               offsets)"

definition probe_dates :: "jsdate \<Rightarrow> jsdate list" where
  "probe_dates target = previous_year target # offset_dates (previous_year target) [1, 2, 3]"

section \<open>Network events as the retry logic sees them\<close>

text \<open>
  \<open>failure_of ev\<close> is the error that the retry test in the \<open>catch\<close> block of
  \<open>makeRequest\<close> examines when the attempt met the event \<open>ev\<close>. There is none
  when the request was delivered, and none when the error has the name
  \<open>AbortError\<close>, where the block is left before the test. An event is
  \<open>retryable\<close> when that error's message includes \<open>timeout\<close> or \<open>network\<close>.
\<close>

definition failure_of :: "net_event \<Rightarrow> thrown option" where
  "failure_of ev =
     (case ev of
        Deliver \<Rightarrow> None
      | Abort \<Rightarrow> None
      | Reject name msg \<Rightarrow> (if name = ''AbortError'' then None else Some (JsError name msg))
      | HttpStatus code statusText \<Rightarrow>
          Some (new_Error (''HTTP '' @ int_to_string code @ '': '' @ statusText))
      | NotJson msg \<Rightarrow> Some (JsError ''SyntaxError'' msg))"

definition retryable :: "net_event \<Rightarrow> bool" where
  "retryable ev =
     (case failure_of ev of
        None \<Rightarrow> False
      | Some e \<Rightarrow> includes_str (err_message e) ''timeout'' \<or> includes_str (err_message e) ''network'')"

section \<open>When the cloud backend falls back\<close>

section \<open>Properties of the retry helper\<close>





section \<open>Properties of the request router\<close>

lemma createResponse_shape:
  "st \<in> {''success'', ''error'', ''not_found''} \<Longrightarrow>
   \<exists>e. createResponse ss st d JNull = TextOutput (JSON_text e) ''application/json''
     \<and> resp_status e = st \<and> resp_timestamp e = server_now ss
     \<and> (resp_data e \<noteq> JUndefined \<longrightarrow> st = ''success'')
     \<and> (resp_error e \<noteq> JUndefined \<longrightarrow> st = ''error'')
     \<and> (resp_message e \<noteq> JUndefined \<longrightarrow> st = ''not_found'')"
  by (auto simp: createResponse_def Let_def)

lemma getOrCreateSheet_cases:
  "(\<exists>msg. api_fault ss = Some msg \<and> getOrCreateSheet ss n = Inl (new_Error msg))
   \<or> (\<exists>ss1. api_fault ss = None \<and> getOrCreateSheet ss n = Inr (n, ss1)
          \<and> server_now ss1 = server_now ss \<and> api_fault ss1 = None)"
  by (auto simp: getOrCreateSheet_def split: option.splits)

lemma setRow_fields [simp]:
  "server_now (setRow ss sheet i r) = server_now ss" "api_fault (setRow ss sheet i r) = api_fault ss"
  by (simp_all add: setRow_def Let_def)

lemma appendRow_fields [simp]:
  "server_now (appendRow ss sheet r) = server_now ss" "api_fault (appendRow ss sheet r) = api_fault ss"
  by (simp_all add: appendRow_def)

lemma deleteRow_fields [simp]:
  "server_now (deleteRow ss sheet i) = server_now ss" "api_fault (deleteRow ss sheet i) = api_fault ss"
  by (simp_all add: deleteRow_def Let_def)

text \<open>
  Each handler answers with one response built by \<open>createResponse\<close> from one of
  the three statuses, leaves the clock and the state of the service as they
  were, and answers \<open>error\<close> when opening the spreadsheet failed in it.
\<close>

lemma handlePing_shape:
  "\<exists>st d ss'. handlePing ss = Inr (createResponse ss' st d JNull, ss')
      \<and> st \<in> {''success'', ''error'', ''not_found''}
      \<and> server_now ss' = server_now ss \<and> api_fault ss' = api_fault ss"
  by (auto simp: handlePing_def)

lemma handleSetItem_shape:
  "\<exists>st d ss'. handleSetItem ss params = Inr (createResponse ss' st d JNull, ss')
      \<and> st \<in> {''success'', ''error'', ''not_found''}
      \<and> server_now ss' = server_now ss \<and> api_fault ss' = api_fault ss
      \<and> (api_fault ss \<noteq> None \<longrightarrow> st = ''error'')"
  using getOrCreateSheet_cases[of ss "or_default (params ''storeId'') ''default''"]
  by (auto simp: handleSetItem_def try_catch_def Let_def split: option.splits sum.splits)

lemma handleGetItem_shape:
  "\<exists>st d ss'. handleGetItem ss params = Inr (createResponse ss' st d JNull, ss')
      \<and> st \<in> {''success'', ''error'', ''not_found''}
      \<and> server_now ss' = server_now ss \<and> api_fault ss' = api_fault ss
      \<and> (api_fault ss \<noteq> None \<longrightarrow> st = ''error'')"
  using getOrCreateSheet_cases[of ss "or_default (params ''storeId'') ''default''"]
  by (auto simp: handleGetItem_def try_catch_def Let_def split: option.splits sum.splits)

lemma handleRemoveItem_shape:
  "\<exists>st d ss'. handleRemoveItem ss params = Inr (createResponse ss' st d JNull, ss')
      \<and> st \<in> {''success'', ''error'', ''not_found''}
      \<and> server_now ss' = server_now ss \<and> api_fault ss' = api_fault ss
      \<and> (api_fault ss \<noteq> None \<longrightarrow> st = ''error'')"
  using getOrCreateSheet_cases[of ss "or_default (params ''storeId'') ''default''"]
  by (auto simp: handleRemoveItem_def try_catch_def Let_def split: option.splits sum.splits)

lemma handleGetAllItems_shape:
  "\<exists>st d ss'. handleGetAllItems ss params = Inr (createResponse ss' st d JNull, ss')
      \<and> st \<in> {''success'', ''error'', ''not_found''}
      \<and> server_now ss' = server_now ss \<and> api_fault ss' = api_fault ss
      \<and> (api_fault ss \<noteq> None \<longrightarrow> st = ''error'')"
  using getOrCreateSheet_cases[of ss "or_default (params ''storeId'') ''default''"]
  by (auto simp: handleGetAllItems_def try_catch_def Let_def split: option.splits sum.splits)

lemma handleGetDateRange_shape:
  "\<exists>st d ss'. handleGetDateRange ss params = Inr (createResponse ss' st d JNull, ss')
      \<and> st \<in> {''success'', ''error'', ''not_found''}
      \<and> server_now ss' = server_now ss \<and> api_fault ss' = api_fault ss
      \<and> (api_fault ss \<noteq> None \<longrightarrow> st = ''error'')"
  using getOrCreateSheet_cases[of ss "or_default (params ''storeId'') ''default''"]
  by (auto simp: handleGetDateRange_def try_catch_def Let_def split: option.splits sum.splits)

lemma handleCreateBackup_shape:
  "\<exists>st d ss'. handleCreateBackup ss params = Inr (createResponse ss' st d JNull, ss')
      \<and> st \<in> {''success'', ''error'', ''not_found''}
      \<and> server_now ss' = server_now ss \<and> api_fault ss' = api_fault ss
      \<and> (api_fault ss \<noteq> None \<longrightarrow> st = ''error'')"
  using getOrCreateSheet_cases[of ss "or_default (params ''storeId'') ''default''"]
  by (auto simp: handleCreateBackup_def try_catch_def Let_def split: option.splits sum.splits)

lemma handleGetSyncStatus_shape:
  "\<exists>st d ss'. handleGetSyncStatus ss params = Inr (createResponse ss' st d JNull, ss')
      \<and> st \<in> {''success'', ''error'', ''not_found''}
      \<and> server_now ss' = server_now ss \<and> api_fault ss' = api_fault ss
      \<and> (api_fault ss \<noteq> None \<longrightarrow> st = ''error'')"
  using getOrCreateSheet_cases[of ss "or_default (params ''storeId'') ''default''"]
  by (auto simp: handleGetSyncStatus_def try_catch_def Let_def split: option.splits sum.splits)

text \<open>
  The probes of \<open>handleGetPreviousYearData\<close> never see a \<open>status\<close> on the object
  that \<open>handleGetItem\<close> returned, so the loop runs to its end whenever the date
  texts can be built, and otherwise throws at the first date that cannot be
  printed.
\<close>

lemma toISOString_invalid [simp]:
  "toISOString None = Inl (JsError ''RangeError'' ''Invalid time value'')"
  by (simp add: toISOString_def)

lemma toISOString_valid: "t \<noteq> None \<Longrightarrow> \<exists>isoText. toISOString t = Inr isoText"
  by (auto simp: toISOString_def Let_def split: prod.splits)

lemma offset_dates_Cons:
  "offset_dates prevYear (offset # rest)
     = [setDate prevYear (map_option (\<lambda>d. d - offset) (getDate prevYear)),
        setDate prevYear (map_option (\<lambda>d. d + offset) (getDate prevYear))]
       @ offset_dates prevYear rest"
  by (simp add: offset_dates_def)

lemma scan_offsets_result:
  "(None \<in> set (offset_dates prevYear offsets)
      \<and> scan_offsets ss storeId prevYear offsets = Inl (JsError ''RangeError'' ''Invalid time value''))
   \<or> (None \<notin> set (offset_dates prevYear offsets)
        \<and> (\<exists>ss'. scan_offsets ss storeId prevYear offsets = Inr (None, ss')
               \<and> server_now ss' = server_now ss \<and> api_fault ss' = api_fault ss))"
proof (induction offsets arbitrary: ss)
  case Nil
  show ?case by (simp add: scan_offsets.simps offset_dates_def)
next
  case (Cons offset rest)
  let ?before = "setDate prevYear (map_option (\<lambda>d. d - offset) (getDate prevYear))"
  let ?after = "setDate prevYear (map_option (\<lambda>d. d + offset) (getDate prevYear))"
  show ?case
  proof (cases "?before = None")
    case True
    then show ?thesis by (simp add: scan_offsets.simps offset_dates_Cons)
  next
    case valid1: False
    then obtain prevIso where prev: "toISOString ?before = Inr prevIso"
      using toISOString_valid by blast
    obtain st1 d1 ss1 where g1:
      "handleGetItem ss (item_params (yousei_key storeId prevIso) storeId)
         = Inr (createResponse ss1 st1 d1 JNull, ss1)"
      "server_now ss1 = server_now ss" "api_fault ss1 = api_fault ss"
      using handleGetItem_shape by blast
    show ?thesis
    proof (cases "?after = None")
      case True
      with valid1 prev g1 show ?thesis
        by (simp add: scan_offsets.simps offset_dates_Cons TextOutput_field_def)
    next
      case valid2: False
      then obtain nextIso where nxt: "toISOString ?after = Inr nextIso"
        using toISOString_valid by blast
      obtain st2 d2 ss2 where g2:
        "handleGetItem ss1 (item_params (yousei_key storeId nextIso) storeId)
           = Inr (createResponse ss2 st2 d2 JNull, ss2)"
        "server_now ss2 = server_now ss1" "api_fault ss2 = api_fault ss1"
        using handleGetItem_shape by blast
      have step: "scan_offsets ss storeId prevYear (offset # rest)
          = scan_offsets ss2 storeId prevYear rest"
        using prev nxt g1 g2 by (simp add: scan_offsets.simps TextOutput_field_def)
      have mem: "None \<in> set (offset_dates prevYear (offset # rest))
          \<longleftrightarrow> None \<in> set (offset_dates prevYear rest)"
        using valid1 valid2 by (auto simp: offset_dates_Cons)
      from Cons.IH[of ss2] show ?thesis
        unfolding step mem using g1(2,3) g2(2,3) by auto
    qed
  qed
qed

lemma handleGetPreviousYearData_status:
  "\<exists>st d ss'. handleGetPreviousYearData ss params = Inr (createResponse ss' st d JNull, ss')
      \<and> st = (if None \<in> set (probe_dates (new_Date (runtime ss) (params ''targetDate'')))
               then ''error'' else ''not_found'')
      \<and> server_now ss' = server_now ss \<and> api_fault ss' = api_fault ss"
proof -
  let ?storeId = "params ''storeId''"
  let ?target = "new_Date (runtime ss) (params ''targetDate'')"
  let ?prevYear = "previous_year ?target"
  let ?failed = "Inr (createResponse ss ''error''
       (JStr (''Failed to get previous year data: '' @ ''Invalid time value'')) JNull, ss)"
  have body: "handleGetPreviousYearData ss params =
     try_catch
       (case toISOString ?prevYear of
             Inl e \<Rightarrow> Inl e
           | Inr prevIso \<Rightarrow>
               (case handleGetItem ss (item_params (yousei_key ?storeId prevIso) ?storeId) of
                  Inl e \<Rightarrow> Inl e
                | Inr (result, ss1) \<Rightarrow>
                      (case scan_offsets ss1 ?storeId ?prevYear [1, 2, 3] of
                         Inl e \<Rightarrow> Inl e
                       | Inr (Some response, ss2) \<Rightarrow> Inr (response, ss2)
                       | Inr (None, ss2) \<Rightarrow>
                           Inr (createResponse ss2 ''not_found''
                                  (JStr ''Previous year data not found'') JNull, ss2))))
       (\<lambda>error. Inr (createResponse ss ''error''
                        (JStr (''Failed to get previous year data: '' @ err_message error)) JNull, ss))"
    by (simp add: handleGetPreviousYearData_def previous_year_def Let_def TextOutput_field_def
          cong: sum.case_cong)
  show ?thesis
  proof (cases "?prevYear = None")
    case True
    then have "handleGetPreviousYearData ss params = ?failed"
      unfolding body by (simp add: try_catch_def)
    with True show ?thesis
      by (intro exI[of _ "''error''"] exI[of _ _] exI[of _ ss]) (simp add: probe_dates_def)
  next
    case valid: False
    then obtain prevIso where iso: "toISOString ?prevYear = Inr prevIso"
      using toISOString_valid by blast
    obtain st1 d1 ss1 where g1:
      "handleGetItem ss (item_params (yousei_key ?storeId prevIso) ?storeId)
         = Inr (createResponse ss1 st1 d1 JNull, ss1)"
      "server_now ss1 = server_now ss" "api_fault ss1 = api_fault ss"
      using handleGetItem_shape by blast
    from scan_offsets_result[of ?prevYear "[1, 2, 3]" ss1 ?storeId]
    show ?thesis
    proof (elim disjE exE conjE)
      assume bad: "None \<in> set (offset_dates ?prevYear [1, 2, 3])"
        and "scan_offsets ss1 ?storeId ?prevYear [1, 2, 3]
               = Inl (JsError ''RangeError'' ''Invalid time value'')"
      with iso g1 have "handleGetPreviousYearData ss params = ?failed"
        unfolding body by (simp add: try_catch_def)
      with bad show ?thesis
        by (intro exI[of _ "''error''"] exI[of _ _] exI[of _ ss]) (simp add: probe_dates_def)
    next
      fix ss2 assume good: "None \<notin> set (offset_dates ?prevYear [1, 2, 3])"
        and sc: "scan_offsets ss1 ?storeId ?prevYear [1, 2, 3] = Inr (None, ss2)"
        and keep: "server_now ss2 = server_now ss1" "api_fault ss2 = api_fault ss1"
      with iso g1 have "handleGetPreviousYearData ss params
          = Inr (createResponse ss2 ''not_found'' (JStr ''Previous year data not found'') JNull, ss2)"
        unfolding body by (simp add: try_catch_def)
      with valid good keep g1(2,3) show ?thesis
        by (intro exI[of _ "''not_found''"] exI[of _ "JStr ''Previous year data not found''"]
              exI[of _ ss2])
           (auto simp: probe_dates_def)
    qed
  qed
qed

lemma try_catch_returns: "body = Inr v \<Longrightarrow> try_catch body handler = Inr v"
  by (simp add: try_catch_def)

lemma handleRequest_shape:
  "\<exists>st d ss'. handleRequest ss params = Inr (createResponse ss' st d JNull, ss')
      \<and> st \<in> {''success'', ''error'', ''not_found''}
      \<and> server_now ss' = server_now ss
      \<and> (api_fault ss \<noteq> None
           \<and> params ''action'' \<in> Some ` {''setItem'', ''getItem'', ''removeItem'', ''getAllItems'',
                                         ''getDateRange'', ''createBackup'', ''getSyncStatus''}
           \<longrightarrow> st = ''error'')
      \<and> (params ''action'' = Some ''getPreviousYearData''
           \<longrightarrow> st = (if None \<in> set (probe_dates (new_Date (runtime ss) (params ''targetDate'')))
                     then ''error'' else ''not_found''))"
proof -
  define P where "P = (\<lambda>fault prev (r :: thrown + text_output \<times> server). \<exists>st d ss'. r = Inr (createResponse ss' st d JNull, ss')
      \<and> st \<in> {''success'', ''error'', ''not_found''}
      \<and> server_now ss' = server_now ss
      \<and> (api_fault ss \<noteq> None \<and> fault \<longrightarrow> st = ''error'')
      \<and> (prev \<longrightarrow> st = (if None \<in> set (probe_dates (new_Date (runtime ss) (params ''targetDate'')))
                          then ''error'' else ''not_found'')))"
  have caught: "P f b (try_catch r h)" if "P f b r" for f b r h
  proof -
    from that obtain v where "r = Inr v" unfolding P_def by blast
    then have "try_catch r h = r" by (simp add: try_catch_def)
    with that show ?thesis by simp
  qed
  have info: "P False False (Inr (createResponse ss ''success'' api_info JNull, ss))"
    unfolding P_def by blast
  have unknown: "P False False (Inr (createResponse ss ''error'' (JStr m) JNull, ss))" for m
    unfolding P_def by blast
  have ping: "P False False (handlePing ss)"
    using handlePing_shape[of ss] unfolding P_def by blast
  have setI: "P True False (handleSetItem ss params)"
    using handleSetItem_shape[of ss params] unfolding P_def by blast
  have getI: "P True False (handleGetItem ss params)"
    using handleGetItem_shape[of ss params] unfolding P_def by blast
  have remI: "P True False (handleRemoveItem ss params)"
    using handleRemoveItem_shape[of ss params] unfolding P_def by blast
  have allI: "P True False (handleGetAllItems ss params)"
    using handleGetAllItems_shape[of ss params] unfolding P_def by blast
  have rangeI: "P True False (handleGetDateRange ss params)"
    using handleGetDateRange_shape[of ss params] unfolding P_def by blast
  have prevI: "P False True (handleGetPreviousYearData ss params)"
    using handleGetPreviousYearData_status[of ss params] unfolding P_def
    by (elim exE conjE) (intro exI conjI, assumption, simp_all)
  have backI: "P True False (handleCreateBackup ss params)"
    using handleCreateBackup_shape[of ss params] unfolding P_def by blast
  have syncI: "P True False (handleGetSyncStatus ss params)"
    using handleGetSyncStatus_shape[of ss params] unfolding P_def by blast
  have "P (params ''action'' \<in> Some ` {''setItem'', ''getItem'', ''removeItem'', ''getAllItems'',
                                         ''getDateRange'', ''createBackup'', ''getSyncStatus''})
          (params ''action'' = Some ''getPreviousYearData'')
          (handleRequest ss params)"
    unfolding handleRequest_def
    by (rule caught)
       (simp add: info unknown ping setI getI remI allI rangeI prevI backI syncI split: option.split)
  then show ?thesis unfolding P_def .
qed

text \<open>
  Claim C9, as the code has it. For every request, \<open>handleRequest\<close> returns (it
  does not throw) one JSON text of media type \<open>application/json\<close> that holds one
  envelope: its status is \<open>success\<close>, \<open>error\<close> or \<open>not_found\<close> and it carries the
  time stamp of the answer; \<open>data\<close> is present only with status \<open>success\<close>,
  \<open>error\<close> only with status \<open>error\<close>, \<open>message\<close> only with status \<open>not_found\<close>. A
  failure that a handler meets in its own \<open>try\<close> block ends in an envelope of
  status \<open>error\<close>: so it is when the spreadsheet cannot be opened in any of the
  seven handlers that open it, and when \<open>handleGetPreviousYearData\<close> cannot
  print one of the seven dates it probes. The lookups of
  \<open>handleGetPreviousYearData\<close> go through \<open>handleGetItem\<close>, which answers its
  own failure with an envelope that the caller takes for a miss: whenever the
  seven dates can be printed the answer is \<open>not_found\<close>, also while the
  spreadsheet cannot be opened. The two entry points \<open>doGet\<close> and \<open>doPost\<close>
  return an envelope for every request, a POST body that is not JSON included.
\<close>

theorem handleRequest_envelope:
  "(\<exists>out ss' e. handleRequest ss params = Inr (out, ss')
      \<and> out = TextOutput (JSON_text e) ''application/json''
      \<and> resp_status e \<in> {''success'', ''error'', ''not_found''}
      \<and> resp_timestamp e = server_now ss
      \<and> (resp_data e \<noteq> JUndefined \<longrightarrow> resp_status e = ''success'')
      \<and> (resp_error e \<noteq> JUndefined \<longrightarrow> resp_status e = ''error'')
      \<and> (resp_message e \<noteq> JUndefined \<longrightarrow> resp_status e = ''not_found'')
      \<and> (api_fault ss \<noteq> None
           \<and> params ''action'' \<in> Some ` {''setItem'', ''getItem'', ''removeItem'', ''getAllItems'',
                                         ''getDateRange'', ''createBackup'', ''getSyncStatus''}
           \<longrightarrow> resp_status e = ''error'')
      \<and> (params ''action'' = Some ''getPreviousYearData''
           \<longrightarrow> resp_status e
                 = (if None \<in> set (probe_dates (new_Date (runtime ss) (params ''targetDate'')))
                    then ''error'' else ''not_found'')))
   \<and> doGet ss params = handleRequest ss params
   \<and> doPost ss (Parsable params) = handleRequest ss params
   \<and> (\<exists>e. doPost ss (Unparsable msg)
           = Inr (TextOutput (JSON_text e) ''application/json'', ss)
         \<and> resp_status e = ''error'' \<and> resp_data e = JUndefined \<and> resp_message e = JUndefined)"
proof (intro conjI)
  obtain st d ss' where r: "handleRequest ss params = Inr (createResponse ss' st d JNull, ss')"
    and st: "st \<in> {''success'', ''error'', ''not_found''}"
    and now: "server_now ss' = server_now ss"
    and fault: "api_fault ss \<noteq> None
           \<and> params ''action'' \<in> Some ` {''setItem'', ''getItem'', ''removeItem'', ''getAllItems'',
                                         ''getDateRange'', ''createBackup'', ''getSyncStatus''}
           \<longrightarrow> st = ''error''"
    and prev: "params ''action'' = Some ''getPreviousYearData''
           \<longrightarrow> st = (if None \<in> set (probe_dates (new_Date (runtime ss) (params ''targetDate'')))
                     then ''error'' else ''not_found'')"
    using handleRequest_shape[of ss params] by (elim exE conjE) (rule that, assumption+)
  from createResponse_shape[OF st, of ss' d] obtain e where
    e: "createResponse ss' st d JNull = TextOutput (JSON_text e) ''application/json''"
       "resp_status e = st" "resp_timestamp e = server_now ss'"
       "resp_data e \<noteq> JUndefined \<longrightarrow> st = ''success''"
       "resp_error e \<noteq> JUndefined \<longrightarrow> st = ''error''"
       "resp_message e \<noteq> JUndefined \<longrightarrow> st = ''not_found''"
    by (elim exE conjE) (rule that, assumption+)
  show "\<exists>out ss' e. handleRequest ss params = Inr (out, ss')
      \<and> out = TextOutput (JSON_text e) ''application/json''
      \<and> resp_status e \<in> {''success'', ''error'', ''not_found''}
      \<and> resp_timestamp e = server_now ss
      \<and> (resp_data e \<noteq> JUndefined \<longrightarrow> resp_status e = ''success'')
      \<and> (resp_error e \<noteq> JUndefined \<longrightarrow> resp_status e = ''error'')
      \<and> (resp_message e \<noteq> JUndefined \<longrightarrow> resp_status e = ''not_found'')
      \<and> (api_fault ss \<noteq> None
           \<and> params ''action'' \<in> Some ` {''setItem'', ''getItem'', ''removeItem'', ''getAllItems'',
                                         ''getDateRange'', ''createBackup'', ''getSyncStatus''}
           \<longrightarrow> resp_status e = ''error'')
      \<and> (params ''action'' = Some ''getPreviousYearData''
           \<longrightarrow> resp_status e
                 = (if None \<in> set (probe_dates (new_Date (runtime ss) (params ''targetDate'')))
                    then ''error'' else ''not_found''))"
    using r st now fault prev e
    by (intro exI[of _ "createResponse ss' st d JNull"] exI[of _ ss'] exI[of _ e]) simp
next
  show "doGet ss params = handleRequest ss params" by (simp add: doGet_def)
next
  obtain v where "handleRequest ss params = Inr v"
    using handleRequest_shape[of ss params] by (elim exE conjE) (rule that, assumption)
  then show "doPost ss (Parsable params) = handleRequest ss params"
    by (simp add: doPost_def try_catch_def)
next
  show "\<exists>e. doPost ss (Unparsable msg) = Inr (TextOutput (JSON_text e) ''application/json'', ss)
         \<and> resp_status e = ''error'' \<and> resp_data e = JUndefined \<and> resp_message e = JUndefined"
    by (simp add: doPost_def try_catch_def createResponse_def)
qed

theorem handleRequest_envelope_witness:
  "(\<exists>out ss' e.
      handleRequest \<lparr> sheets = Map.empty, server_now = ''2024-06-05T10:00:00.000Z'',
                      api_fault = Some ''Service unavailable'', runtime = iso_runtime \<rparr>
                    [''action'' \<mapsto> ''getAllItems'', ''storeId'' \<mapsto> ''S''] = Inr (out, ss')
      \<and> out = TextOutput (JSON_text e) ''application/json''
      \<and> resp_status e = ''error'' \<and> resp_timestamp e = ''2024-06-05T10:00:00.000Z''
      \<and> resp_data e = JUndefined \<and> resp_message e = JUndefined)
   \<and> (\<exists>out ss' e.
      handleRequest \<lparr> sheets = Map.empty, server_now = ''2024-06-05T10:00:00.000Z'',
                      api_fault = None, runtime = iso_runtime \<rparr>
                    [''action'' \<mapsto> ''getPreviousYearData'', ''targetDate'' \<mapsto> ''soon''] = Inr (out, ss')
      \<and> out = TextOutput (JSON_text e) ''application/json''
      \<and> resp_status e = ''error'' \<and> resp_data e = JUndefined \<and> resp_message e = JUndefined)
   \<and> (\<exists>out ss' e.
      handleRequest \<lparr> sheets = Map.empty, server_now = ''2024-06-05T10:00:00.000Z'',
                      api_fault = Some ''Service unavailable'', runtime = iso_runtime \<rparr>
                    [''action'' \<mapsto> ''getPreviousYearData'', ''targetDate'' \<mapsto> ''2024-06-05'']
        = Inr (out, ss')
      \<and> out = TextOutput (JSON_text e) ''application/json''
      \<and> resp_status e = ''not_found'' \<and> resp_data e = JUndefined \<and> resp_error e = JUndefined)"
proof (intro conjI)
  let ?ss = "\<lparr> sheets = Map.empty, server_now = ''2024-06-05T10:00:00.000Z'',
               api_fault = Some ''Service unavailable'', runtime = iso_runtime \<rparr>"
  let ?params = "[''action'' \<mapsto> ''getAllItems'', ''storeId'' \<mapsto> ''S'']"
  have fault: "api_fault ?ss \<noteq> None
      \<and> ?params ''action'' \<in> Some ` {''setItem'', ''getItem'', ''removeItem'', ''getAllItems'',
                                         ''getDateRange'', ''createBackup'', ''getSyncStatus''}"
    by simp
  from handleRequest_envelope [of ?ss ?params "[]"]
  obtain out ss' e where r: "handleRequest ?ss ?params = Inr (out, ss')"
      "out = TextOutput (JSON_text e) ''application/json''"
      "resp_timestamp e = server_now ?ss"
      "resp_data e \<noteq> JUndefined \<longrightarrow> resp_status e = ''success''"
      "resp_message e \<noteq> JUndefined \<longrightarrow> resp_status e = ''not_found''"
      "api_fault ?ss \<noteq> None
        \<and> ?params ''action'' \<in> Some ` {''setItem'', ''getItem'', ''removeItem'', ''getAllItems'',
                                         ''getDateRange'', ''createBackup'', ''getSyncStatus''}
        \<longrightarrow> resp_status e = ''error''"
    by (elim exE conjE) (rule that, assumption+)
  from r(6) fault have st: "resp_status e = ''error''" by (rule mp)
  with r(4,5) have "resp_data e = JUndefined" "resp_message e = JUndefined" by auto
  with r(1,2,3) st show "\<exists>out ss' e. handleRequest ?ss ?params = Inr (out, ss')
      \<and> out = TextOutput (JSON_text e) ''application/json''
      \<and> resp_status e = ''error'' \<and> resp_timestamp e = ''2024-06-05T10:00:00.000Z''
      \<and> resp_data e = JUndefined \<and> resp_message e = JUndefined"
    by (intro exI[of _ out] exI[of _ ss'] exI[of _ e]) simp
next
  let ?ss = "\<lparr> sheets = Map.empty, server_now = ''2024-06-05T10:00:00.000Z'',
               api_fault = None, runtime = iso_runtime \<rparr>"
  let ?params = "[''action'' \<mapsto> ''getPreviousYearData'', ''targetDate'' \<mapsto> ''soon'']"
  have action: "?params ''action'' = Some ''getPreviousYearData''" by simp
  have "None \<in> set (probe_dates (new_Date iso_runtime (Some ''soon'')))" by code_simp
  then have bad: "None \<in> set (probe_dates (new_Date (runtime ?ss) (?params ''targetDate'')))"
    by simp
  from handleRequest_envelope [of ?ss ?params "[]"]
  obtain out ss' e where r: "handleRequest ?ss ?params = Inr (out, ss')"
      "out = TextOutput (JSON_text e) ''application/json''"
      "resp_data e \<noteq> JUndefined \<longrightarrow> resp_status e = ''success''"
      "resp_message e \<noteq> JUndefined \<longrightarrow> resp_status e = ''not_found''"
      "?params ''action'' = Some ''getPreviousYearData''
        \<longrightarrow> resp_status e
              = (if None \<in> set (probe_dates (new_Date (runtime ?ss) (?params ''targetDate'')))
                 then ''error'' else ''not_found'')"
    by (elim exE conjE) (rule that, assumption+)
  from r(5) action have "resp_status e
      = (if None \<in> set (probe_dates (new_Date (runtime ?ss) (?params ''targetDate'')))
         then ''error'' else ''not_found'')" by (rule mp)
  with bad have st: "resp_status e = ''error''" by (simp only: if_True)
  with r(3,4) have "resp_data e = JUndefined" "resp_message e = JUndefined" by auto
  with r(1,2) st show "\<exists>out ss' e. handleRequest ?ss ?params = Inr (out, ss')
      \<and> out = TextOutput (JSON_text e) ''application/json''
      \<and> resp_status e = ''error'' \<and> resp_data e = JUndefined \<and> resp_message e = JUndefined"
    by (intro exI[of _ out] exI[of _ ss'] exI[of _ e]) simp
next
  let ?ss = "\<lparr> sheets = Map.empty, server_now = ''2024-06-05T10:00:00.000Z'',
               api_fault = Some ''Service unavailable'', runtime = iso_runtime \<rparr>"
  let ?params = "[''action'' \<mapsto> ''getPreviousYearData'', ''targetDate'' \<mapsto> ''2024-06-05'']"
  have action: "?params ''action'' = Some ''getPreviousYearData''" by simp
  have "None \<notin> set (probe_dates (new_Date iso_runtime (Some ''2024-06-05'')))" by code_simp
  then have good: "\<not> None \<in> set (probe_dates (new_Date (runtime ?ss) (?params ''targetDate'')))"
    by simp
  from handleRequest_envelope [of ?ss ?params "[]"]
  obtain out ss' e where r: "handleRequest ?ss ?params = Inr (out, ss')"
      "out = TextOutput (JSON_text e) ''application/json''"
      "resp_data e \<noteq> JUndefined \<longrightarrow> resp_status e = ''success''"
      "resp_error e \<noteq> JUndefined \<longrightarrow> resp_status e = ''error''"
      "?params ''action'' = Some ''getPreviousYearData''
        \<longrightarrow> resp_status e
              = (if None \<in> set (probe_dates (new_Date (runtime ?ss) (?params ''targetDate'')))
                 then ''error'' else ''not_found'')"
    by (elim exE conjE) (rule that, assumption+)
  from r(5) action have "resp_status e
      = (if None \<in> set (probe_dates (new_Date (runtime ?ss) (?params ''targetDate'')))
         then ''error'' else ''not_found'')" by (rule mp)
  with good have st: "resp_status e = ''not_found''" by (simp only: if_False)
  with r(3,4) have "resp_data e = JUndefined" "resp_error e = JUndefined" by auto
  with r(1,2) st show "\<exists>out ss' e. handleRequest ?ss ?params = Inr (out, ss')
      \<and> out = TextOutput (JSON_text e) ''application/json''
      \<and> resp_status e = ''not_found'' \<and> resp_data e = JUndefined \<and> resp_error e = JUndefined"
    by (intro exI[of _ out] exI[of _ ss'] exI[of _ e]) simp
qed

text \<open>
  Claim C9 as stated fails where it says that every failure inside a handler
  becomes an \<open>error\<close> envelope. While the spreadsheet cannot be opened, the
  lookup that \<open>handleGetPreviousYearData\<close> makes through \<open>handleGetItem\<close> fails,
  and \<open>handleGetItem\<close> answers it with an \<open>error\<close> envelope; the request for the
  previous year's data is answered \<open>not_found\<close>.
\<close>

theorem handleRequest_failure_counterexample:
  "map_sum id (\<lambda>r. JSON_parse (getContent (fst r)))
     (handleGetItem
        \<lparr> sheets = Map.empty, server_now = ''2024-06-05T10:00:00.000Z'',
          api_fault = Some ''Service unavailable'', runtime = iso_runtime \<rparr>
        (item_params (yousei_key (Some ''S'') ''2023-06-05T00:00:00.000Z'') (Some ''S'')))
     = Inr \<lparr> resp_status = ''error'', resp_timestamp = ''2024-06-05T10:00:00.000Z'',
             resp_data = JUndefined,
             resp_error = JStr ''Failed to get item: Service unavailable'',
             resp_message = JUndefined \<rparr>
   \<and> map_sum id (\<lambda>r. JSON_parse (getContent (fst r)))
     (handleRequest
        \<lparr> sheets = Map.empty, server_now = ''2024-06-05T10:00:00.000Z'',
          api_fault = Some ''Service unavailable'', runtime = iso_runtime \<rparr>
        [''action'' \<mapsto> ''getPreviousYearData'', ''targetDate'' \<mapsto> ''2024-06-05'',
         ''storeId'' \<mapsto> ''S''])
     = Inr \<lparr> resp_status = ''not_found'', resp_timestamp = ''2024-06-05T10:00:00.000Z'',
             resp_data = JUndefined, resp_error = JUndefined,
             resp_message = JStr ''Previous year data not found'' \<rparr>"
  by code_simp
section \<open>Properties of the date-range query\<close>





section \<open>The previous-year lookup\<close>

text \<open>
  Claim C7. The claim holds of what the code sets out to do, and the code
  misses it: \<open>handleGetPreviousYearData\<close> tests \<open>result.status\<close> and reads
  \<open>result.data\<close> on the \<open>TextOutput\<close> object that \<open>handleGetItem\<close> returns, where
  both are \<open>undefined\<close>, so that no probe is ever taken for a hit. For every
  store and every request the answer is \<open>not_found\<close> or \<open>error\<close>, never
  \<open>success\<close>. In the claim's own example, with the one record
  \<open>yousei:S:2023-06-03\<close> in store \<open>S\<close> and the target date \<open>2024-06-05\<close>, the
  answer is \<open>not_found\<close>, although \<open>handleGetItem\<close> finds the record under the
  key of the probe two days back.
\<close>

theorem handleGetPreviousYearData_never_finds:
  "(\<exists>st d ss'. handleGetPreviousYearData ss params = Inr (createResponse ss' st d JNull, ss')
       \<and> st \<noteq> ''success'')
   \<and> map_sum id (\<lambda>r. JSON_parse (getContent (fst r)))
        (handleRequest
           \<lparr> sheets = [''S'' \<mapsto>
               [headers,
                \<lparr> col_key = ''yousei:S:2023-06-03'', col_value = ''record of 2023-06-03'',
                  col_timestamp = ''2023-06-03T09:00:00.000Z'',
                  col_lastModified = ''2023-06-03T09:00:00.000Z'' \<rparr>]],
             server_now = ''2024-06-05T10:00:00.000Z'', api_fault = None, runtime = iso_runtime \<rparr>
           [''action'' \<mapsto> ''getPreviousYearData'', ''targetDate'' \<mapsto> ''2024-06-05'',
            ''storeId'' \<mapsto> ''S''])
       = Inr \<lparr> resp_status = ''not_found'', resp_timestamp = ''2024-06-05T10:00:00.000Z'',
               resp_data = JUndefined, resp_error = JUndefined,
               resp_message = JStr ''Previous year data not found'' \<rparr>
   \<and> toISOString (setDate (setFullYear (new_Date iso_runtime (Some ''2024-06-05'')) (Some 2023))
                      (Some (5 - 2)))
       = Inr ''2023-06-03T00:00:00.000Z''
   \<and> map_sum id (\<lambda>r. JSON_parse (getContent (fst r)))
        (handleGetItem
           \<lparr> sheets = [''S'' \<mapsto>
               [headers,
                \<lparr> col_key = ''yousei:S:2023-06-03'', col_value = ''record of 2023-06-03'',
                  col_timestamp = ''2023-06-03T09:00:00.000Z'',
                  col_lastModified = ''2023-06-03T09:00:00.000Z'' \<rparr>]],
             server_now = ''2024-06-05T10:00:00.000Z'', api_fault = None, runtime = iso_runtime \<rparr>
           (item_params (yousei_key (Some ''S'') ''2023-06-03T00:00:00.000Z'') (Some ''S'')))
       = Inr \<lparr> resp_status = ''success'', resp_timestamp = ''2024-06-05T10:00:00.000Z'',
               resp_data = JStr ''record of 2023-06-03'', resp_error = JUndefined,
               resp_message = JUndefined \<rparr>"
proof (intro conjI)
  show "\<exists>st d ss'. handleGetPreviousYearData ss params = Inr (createResponse ss' st d JNull, ss')
       \<and> st \<noteq> ''success''"
    using handleGetPreviousYearData_status[of ss params]
    by (elim exE conjE) (intro exI conjI, assumption, simp)
qed code_simp+

section \<open>Properties of the client's requests\<close>

lemma deliver_returns:
  "\<exists>r ss'. deliver verb d w = (Inr r, w \<lparr> w_server := ss' \<rparr>)"
proof -
  obtain st da ss' where h: "handleRequest (w_server w) d = Inr (createResponse ss' st da JNull, ss')"
    using handleRequest_shape[of "w_server w" d] by (elim exE conjE) (rule that, assumption)
  show ?thesis
    by (cases verb) (auto simp add: deliver_def doGet_def doPost_def try_catch_def h)
qed

lemma world_net_same: "w_net w = xs \<Longrightarrow> w \<lparr> w_net := xs \<rparr> = w"
  by (cases w) simp

lemma send_request_failure:
  assumes "w_net w = ev # rest" and "failure_of ev = Some e"
  shows "send_request verb d w = (Inl e, w \<lparr> w_net := rest \<rparr>) \<and> err_name e \<noteq> ''AbortError''"
  using assms
  by (cases ev) (auto simp: send_request_def failure_of_def new_Error_def split: if_splits)

lemma send_request_delivers:
  assumes "w_net w = [] \<or> (\<exists>rest. w_net w = Deliver # rest)"
  shows "send_request verb d w = deliver verb d (w \<lparr> w_net := tl (w_net w) \<rparr>)"
  using assms by (auto simp: send_request_def world_net_same)

lemma makeRequest_retries_once:
  assumes "\<not> falsy (gas_webAppUrl st)" and "w_net w = ev # rest" and "retryable ev"
    and "n < gas_retryCount st"
  shows "makeRequest st verb d n w
           = makeRequest st verb d (Suc n)
               (w \<lparr> w_net := rest, w_slept := w_slept w @ [1000 * (n + 1)] \<rparr>)"
proof -
  from assms(3) obtain e where e: "failure_of ev = Some e"
    and msg: "includes_str (err_message e) ''timeout'' \<or> includes_str (err_message e) ''network''"
    by (auto simp: retryable_def split: option.splits)
  from send_request_failure[OF assms(2) e, of verb d]
  have s: "send_request verb d w = (Inl e, w \<lparr> w_net := rest \<rparr>)"
    and r: "err_name e \<noteq> ''AbortError''"
    by simp_all
  show ?thesis
    using assms(1,4) msg
    by (subst makeRequest.simps) (simp add: s r)
qed

lemma makeRequest_gives_up:
  assumes "\<not> falsy (gas_webAppUrl st)" and "w_net w = ev # rest" and "failure_of ev = Some e"
    and "\<not> retryable ev \<or> \<not> n < gas_retryCount st"
  shows "makeRequest st verb d n w = (Inl e, w \<lparr> w_net := rest \<rparr>)"
proof -
  from send_request_failure[OF assms(2,3), of verb d]
  have s: "send_request verb d w = (Inl e, w \<lparr> w_net := rest \<rparr>)"
    and r: "err_name e \<noteq> ''AbortError''"
    by simp_all
  from assms(3,4) have "\<not> n < gas_retryCount st
      \<or> \<not> (includes_str (err_message e) ''timeout'' \<or> includes_str (err_message e) ''network'')"
    by (auto simp: retryable_def)
  then show ?thesis
    using assms(1)
    by (subst makeRequest.simps) (auto simp add: s r)
qed

text \<open>
  An attempt that the timer aborts is not tried again: \<open>makeRequest\<close> throws the
  \<open>TypeError\<close> of the assignment in its \<open>catch\<close> block, at once.
\<close>

lemma makeRequest_aborted:
  assumes "\<not> falsy (gas_webAppUrl st)" and "w_net w = Abort # rest"
  shows "makeRequest st verb d n w
           = (Inl (JsError ''TypeError'' getter_only_message), w \<lparr> w_net := rest \<rparr>)"
  using assms
  by (subst makeRequest.simps) (simp add: send_request_def)

lemma makeRequest_delivered:
  assumes "\<not> falsy (gas_webAppUrl st)" and "w_net w = [] \<or> (\<exists>rest. w_net w = Deliver # rest)"
  shows "makeRequest st verb d n w = deliver verb d (w \<lparr> w_net := tl (w_net w) \<rparr>)"
proof -
  obtain r ss' where "deliver verb d (w \<lparr> w_net := tl (w_net w) \<rparr>)
      = (Inr r, w \<lparr> w_net := tl (w_net w), w_server := ss' \<rparr>)"
    using deliver_returns[of verb d "w \<lparr> w_net := tl (w_net w) \<rparr>"] by auto
  then show ?thesis
    using assms(1) send_request_delivers[OF assms(2), of verb d]
    by (subst makeRequest.simps) simp
qed

lemma makeRequest_retries:
  assumes "\<not> falsy (gas_webAppUrl st)"
  shows "w_net w = evs @ rest \<Longrightarrow> \<forall>ev \<in> set evs. retryable ev \<Longrightarrow>
         n + length evs \<le> gas_retryCount st \<Longrightarrow>
         makeRequest st verb d n w
           = makeRequest st verb d (n + length evs)
               (w \<lparr> w_net := rest,
                    w_slept := w_slept w @ map (\<lambda>k. 1000 * (k + 1)) [n..<n + length evs] \<rparr>)"
proof (induction evs arbitrary: n w)
  case Nil
  then show ?case by (simp add: world_net_same)
next
  case (Cons ev evs)
  let ?w1 = "w \<lparr> w_net := evs @ rest, w_slept := w_slept w @ [1000 * (n + 1)] \<rparr>"
  have step: "makeRequest st verb d n w = makeRequest st verb d (Suc n) ?w1"
    using Cons.prems by (intro makeRequest_retries_once[OF assms]) auto
  have "makeRequest st verb d (Suc n) ?w1
      = makeRequest st verb d (Suc n + length evs)
          (?w1 \<lparr> w_net := rest,
                 w_slept := w_slept ?w1 @ map (\<lambda>k. 1000 * (k + 1)) [Suc n..<Suc n + length evs] \<rparr>)"
    using Cons.prems by (intro Cons.IH) auto
  moreover have "[n..<n + length (ev # evs)] = n # [Suc n..<n + length (ev # evs)]"
    by (rule upt_conv_Cons) simp
  ultimately show ?case using step by simp
qed

text \<open>
  Claim C4, as the code has it. \<open>makeRequest\<close> does its own retrying and never
  calls \<open>withRetry\<close>. With a web app URL configured: a request whose first
  attempts fail with errors whose message includes \<open>timeout\<close> or \<open>network\<close>, no
  more of them than \<open>retryCount\<close>, and which is then delivered, returns the
  answer of the service after waiting \<open>1000 * (k + 1)\<close> milliseconds after the
  failed attempt \<open>k\<close> (1000, 2000, 3000 with the default of three retries). A
  failed attempt whose error has no such message, or the failed attempt after
  \<open>retryCount\<close> retries, throws its error at once, with no further wait and no
  further attempt. Attempts that the timer aborts are left out of the
  statement.
\<close>

theorem makeRequest_retry_policy:
  assumes "\<not> falsy (gas_webAppUrl st)"
  shows
    "(w_net w1 = evs1 @ rest1 \<and> (\<forall>ev \<in> set evs1. retryable ev)
        \<and> length evs1 \<le> gas_retryCount st \<and> (rest1 = [] \<or> (\<exists>tail. rest1 = Deliver # tail))
      \<longrightarrow> makeRequest st verb d 0 w1
            = deliver verb d
                (w1 \<lparr> w_net := tl rest1,
                      w_slept := w_slept w1 @ map (\<lambda>k. 1000 * (k + 1)) [0..<length evs1] \<rparr>))
     \<and> (w_net w2 = evs2 @ ev # rest2 \<and> (\<forall>ev \<in> set evs2. retryable ev)
        \<and> length evs2 \<le> gas_retryCount st \<and> failure_of ev = Some e
        \<and> (\<not> retryable ev \<or> length evs2 = gas_retryCount st)
      \<longrightarrow> makeRequest st verb d 0 w2
            = (Inl e, w2 \<lparr> w_net := rest2,
                            w_slept := w_slept w2 @ map (\<lambda>k. 1000 * (k + 1)) [0..<length evs2] \<rparr>))"
proof (intro conjI impI)
  assume h: "w_net w1 = evs1 @ rest1 \<and> (\<forall>ev \<in> set evs1. retryable ev)
        \<and> length evs1 \<le> gas_retryCount st \<and> (rest1 = [] \<or> (\<exists>tail. rest1 = Deliver # tail))"
  let ?w = "w1 \<lparr> w_net := rest1,
      w_slept := w_slept w1 @ map (\<lambda>k. 1000 * (k + 1)) [0..<length evs1] \<rparr>"
  have "makeRequest st verb d 0 w1 = makeRequest st verb d (0 + length evs1) ?w"
    using h makeRequest_retries[OF assms, of w1 evs1 rest1 0 verb d] by simp
  also have "\<dots> = deliver verb d (?w \<lparr> w_net := tl (w_net ?w) \<rparr>)"
    using h by (intro makeRequest_delivered[OF assms]) auto
  finally have eq: "makeRequest st verb d 0 w1
      = deliver verb d (?w \<lparr> w_net := tl (w_net ?w) \<rparr>)" .
  have norm: "?w \<lparr> w_net := tl (w_net ?w) \<rparr>
      = w1 \<lparr> w_net := tl rest1,
             w_slept := w_slept w1 @ map (\<lambda>k. 1000 * (k + 1)) [0..<length evs1] \<rparr>"
    by (cases w1) simp
  show "makeRequest st verb d 0 w1
      = deliver verb d
          (w1 \<lparr> w_net := tl rest1,
                w_slept := w_slept w1 @ map (\<lambda>k. 1000 * (k + 1)) [0..<length evs1] \<rparr>)"
    unfolding norm[symmetric] by (rule eq)
next
  assume h: "w_net w2 = evs2 @ ev # rest2 \<and> (\<forall>ev \<in> set evs2. retryable ev)
        \<and> length evs2 \<le> gas_retryCount st \<and> failure_of ev = Some e
        \<and> (\<not> retryable ev \<or> length evs2 = gas_retryCount st)"
  let ?w = "w2 \<lparr> w_net := ev # rest2,
      w_slept := w_slept w2 @ map (\<lambda>k. 1000 * (k + 1)) [0..<length evs2] \<rparr>"
  have "makeRequest st verb d 0 w2 = makeRequest st verb d (0 + length evs2) ?w"
    using h makeRequest_retries[OF assms, of w2 evs2 "ev # rest2" 0 verb d] by simp
  also have "\<dots> = (Inl e, ?w \<lparr> w_net := rest2 \<rparr>)"
    using h by (intro makeRequest_gives_up[OF assms]) auto
  finally have eq: "makeRequest st verb d 0 w2 = (Inl e, ?w \<lparr> w_net := rest2 \<rparr>)" .
  have norm: "?w \<lparr> w_net := rest2 \<rparr>
      = w2 \<lparr> w_net := rest2,
             w_slept := w_slept w2 @ map (\<lambda>k. 1000 * (k + 1)) [0..<length evs2] \<rparr>"
    by (cases w2) simp
  show "makeRequest st verb d 0 w2
      = (Inl e, w2 \<lparr> w_net := rest2,
                      w_slept := w_slept w2 @ map (\<lambda>k. 1000 * (k + 1)) [0..<length evs2] \<rparr>)"
    unfolding norm[symmetric] by (rule eq)
qed

theorem makeRequest_retry_policy_witness:
  "\<not> falsy (Some ''https://script.example/exec'')
   \<and> retryable (Reject ''TypeError'' ''network error'')
   \<and> retryable (HttpStatus 504 ''upstream request timeout'')
   \<and> \<not> retryable (Reject ''TypeError'' ''Failed to fetch'')
   \<and> failure_of (Reject ''TypeError'' ''Failed to fetch'') = Some (JsError ''TypeError'' ''Failed to fetch'')
   \<and> makeRequest
        \<lparr> gas_webAppUrl = Some ''https://script.example/exec'', gas_storeId = Some ''KRB01'',
          gas_initialized = True, gas_retryCount = 3, gas_timeout = 10000 \<rparr>
        GET [''action'' \<mapsto> ''ping''] 0
        \<lparr> w_server = \<lparr> sheets = Map.empty, server_now = ''2024-06-05T10:00:00.000Z'',
                       api_fault = None, runtime = iso_runtime \<rparr>,
          w_net = [Reject ''TypeError'' ''network error'', HttpStatus 504 ''upstream request timeout'',
                   Reject ''TypeError'' ''network error''],
          w_slept = [], w_now = ''2024-06-05T10:00:00.000Z'' \<rparr>
      = deliver GET [''action'' \<mapsto> ''ping'']
          \<lparr> w_server = \<lparr> sheets = Map.empty, server_now = ''2024-06-05T10:00:00.000Z'',
                         api_fault = None, runtime = iso_runtime \<rparr>,
            w_net = [], w_slept = [1000, 2000, 3000], w_now = ''2024-06-05T10:00:00.000Z'' \<rparr>
   \<and> makeRequest
        \<lparr> gas_webAppUrl = Some ''https://script.example/exec'', gas_storeId = Some ''KRB01'',
          gas_initialized = True, gas_retryCount = 3, gas_timeout = 10000 \<rparr>
        GET [''action'' \<mapsto> ''ping''] 0
        \<lparr> w_server = \<lparr> sheets = Map.empty, server_now = ''2024-06-05T10:00:00.000Z'',
                       api_fault = None, runtime = iso_runtime \<rparr>,
          w_net = [Reject ''TypeError'' ''network error'', Reject ''TypeError'' ''Failed to fetch'',
                   Deliver],
          w_slept = [], w_now = ''2024-06-05T10:00:00.000Z'' \<rparr>
      = (Inl (JsError ''TypeError'' ''Failed to fetch''),
          \<lparr> w_server = \<lparr> sheets = Map.empty, server_now = ''2024-06-05T10:00:00.000Z'',
                         api_fault = None, runtime = iso_runtime \<rparr>,
            w_net = [Deliver], w_slept = [1000], w_now = ''2024-06-05T10:00:00.000Z'' \<rparr>)"
proof -
  let ?st = "\<lparr> gas_webAppUrl = Some ''https://script.example/exec'', gas_storeId = Some ''KRB01'',
          gas_initialized = True, gas_retryCount = 3, gas_timeout = 10000 \<rparr>"
  let ?ss = "\<lparr> sheets = Map.empty, server_now = ''2024-06-05T10:00:00.000Z'', api_fault = None,
               runtime = iso_runtime \<rparr>"
  let ?net = "Reject ''TypeError'' ''network error''"
  let ?slow = "HttpStatus 504 ''upstream request timeout''"
  let ?down = "Reject ''TypeError'' ''Failed to fetch''"
  let ?w1 = "\<lparr> w_server = ?ss, w_net = [?net, ?slow, ?net],
          w_slept = [], w_now = ''2024-06-05T10:00:00.000Z'' \<rparr>"
  let ?w2 = "\<lparr> w_server = ?ss, w_net = [?net, ?down, Deliver],
          w_slept = [], w_now = ''2024-06-05T10:00:00.000Z'' \<rparr>"
  have url: "\<not> falsy (gas_webAppUrl ?st)" by (simp add: falsy_def)
  have r1: "retryable ?net" by code_simp
  have r2: "retryable ?slow" by code_simp
  have r3: "\<not> retryable ?down" by code_simp
  have t3: "failure_of ?down = Some (JsError ''TypeError'' ''Failed to fetch'')"
    by (simp add: failure_of_def)
  have u1: "[0..<Suc 0] = [0]" and u3: "[0..<3] = [0, Suc 0, 2]"
    by (simp_all add: upt_rec)
  from makeRequest_retry_policy [OF url,
      of ?w1 "[?net, ?slow, ?net]" "[]"
         GET "[''action'' \<mapsto> ''ping'']"
         ?w2 "[?net]" ?down "[Deliver]"
         "JsError ''TypeError'' ''Failed to fetch''"]
  show ?thesis
    using r1 r2 r3 t3 by (simp add: u1 u3 falsy_def)
qed

text \<open>
  Claim C4 as stated fails on the delays: after three attempts that failed with
  a network error the client has waited 1000, 2000 and 3000 milliseconds, where
  the shared helper's \<open>min (1000 * 2^attempt) 5000\<close> gives 1000, 2000 and 4000.
\<close>

theorem makeRequest_backoff_counterexample:
  "w_slept (snd (makeRequest
        \<lparr> gas_webAppUrl = Some ''https://script.example/exec'', gas_storeId = Some ''KRB01'',
          gas_initialized = True, gas_retryCount = 3, gas_timeout = 10000 \<rparr>
        GET [''action'' \<mapsto> ''ping''] 0
        \<lparr> w_server = \<lparr> sheets = Map.empty, server_now = ''2024-06-05T10:00:00.000Z'',
                       api_fault = None, runtime = iso_runtime \<rparr>,
          w_net = [Reject ''TypeError'' ''network error'', Reject ''TypeError'' ''network error'',
                   Reject ''TypeError'' ''network error''],
          w_slept = [], w_now = ''2024-06-05T10:00:00.000Z'' \<rparr>))
     = [1000, 2000, 3000]
   \<and> map backoff_delay [0, 1, 2] = [1000, 2000, 4000]"
  by code_simp
section \<open>Reading through the client\<close>

lemma send_request_answer:
  "send_request verb d w = (Inr r, w') \<Longrightarrow> \<exists>wa. deliver verb d wa = (Inr r, w')"
  by (auto simp: send_request_def Let_def split: list.splits net_event.splits)

lemma makeRequest_answer:
  "makeRequest st verb d n w = (Inr r, w') \<Longrightarrow> \<exists>wa. deliver verb d wa = (Inr r, w')"
proof (induction st verb d n w rule: makeRequest.induct)
  case (1 st verb d retryCount w)
  from "1.prems" have url: "\<not> falsy (gas_webAppUrl st)"
    by (subst (asm) makeRequest.simps) (auto split: if_splits)
  obtain r0 w1 where s: "send_request verb d w = (r0, w1)"
    by (cases "send_request verb d w")
  show ?case
  proof (cases r0)
    case (Inr result)
    with "1.prems" url s have "send_request verb d w = (Inr r, w')"
      by (subst (asm) makeRequest.simps) simp
    then show ?thesis by (rule send_request_answer)
  next
    case (Inl error)
    let ?again = "retryCount < gas_retryCount st
        \<and> (includes_str (err_message error) ''timeout''
           \<or> includes_str (err_message error) ''network'')"
    show ?thesis
    proof (cases "err_name error = ''AbortError''")
      case True
      with "1.prems" url s Inl show ?thesis
        by (subst (asm) makeRequest.simps) simp
    next
      case other: False
      show ?thesis
      proof (cases ?again)
        case True
        with "1.prems" url s Inl other
        have "makeRequest st verb d (Suc retryCount)
                (w1 \<lparr> w_slept := w_slept w1 @ [1000 * (retryCount + 1)] \<rparr>) = (Inr r, w')"
          by (subst (asm) makeRequest.simps) simp
        with "1.IH"[OF url s[symmetric] Inl other True] show ?thesis by blast
      next
        case False
        with "1.prems" url s Inl other show ?thesis
          by (subst (asm) makeRequest.simps) simp
      qed
    qed
  qed
qed

lemma handleRequest_getAllItems:
  "params ''action'' = Some ''getAllItems'' \<Longrightarrow> handleRequest ss params = handleGetAllItems ss params"
proof -
  assume a: "params ''action'' = Some ''getAllItems''"
  obtain v where "handleGetAllItems ss params = Inr v"
    using handleGetAllItems_shape[of ss params] by (elim exE conjE) (rule that, assumption)
  with a show ?thesis by (simp add: handleRequest_def try_catch_def)
qed

lemma handleGetAllItems_array:
  assumes "handleGetAllItems ss params = Inr (out, ss')"
    and "resp_status (JSON_parse (getContent out)) = ''success''"
  shows "\<exists>xs. resp_data (JSON_parse (getContent out)) = JArr xs"
  using assms getOrCreateSheet_cases[of ss "or_default (params ''storeId'') ''default''"]
  by (auto simp: handleGetAllItems_def try_catch_def Let_def createResponse_def
        split: if_splits)

lemma deliver_getAllItems_array:
  assumes "d ''action'' = Some ''getAllItems''" and "deliver verb d wa = (Inr r, w')"
    and "resp_status r = ''success''"
  shows "\<exists>xs. resp_data r = JArr xs"
proof -
  obtain v where v: "handleGetAllItems (w_server wa) d = Inr v"
    using handleGetAllItems_shape[of "w_server wa" d] by (elim exE conjE) (rule that, assumption)
  obtain out ss' where o: "v = (out, ss')" by (cases v)
  have h: "handleRequest (w_server wa) d = handleGetAllItems (w_server wa) d"
    using assms(1) by (rule handleRequest_getAllItems)
  from assms(2) v o have "r = JSON_parse (getContent out)"
    by (cases verb) (simp_all add: deliver_def doGet_def doPost_def try_catch_def h)
  with handleGetAllItems_array[OF v[unfolded o]] assms(3) show ?thesis by simp
qed

text \<open>
  Claim C5. \<open>getItem\<close> (and \<open>load\<close>) returns and never throws, whatever the
  state of the backend, the service and the network. On an initialised backend
  the answer \<open>not_found\<close> of the service gives \<open>null\<close>, and so does every
  failure of \<open>makeRequest\<close>: nothing the transport throws reaches the caller.
\<close>

theorem getItem_never_throws:
  "(\<exists>v w'. getItem st key w = (Inr v, w'))
   \<and> load st key w = getItem st key w
   \<and> (gas_initialized st
        \<and> makeRequest st GET
              ([''action'' \<mapsto> ''getItem'', ''key'' \<mapsto> generateKey (gas_storeId st) key []]
               (''storeId'' := query_value (gas_storeId st))) 0 w1 = (Inr r, w1')
        \<and> resp_status r = ''not_found''
      \<longrightarrow> getItem st key w1 = (Inr JNull, w1'))
   \<and> (gas_initialized st
        \<and> makeRequest st GET
              ([''action'' \<mapsto> ''getItem'', ''key'' \<mapsto> generateKey (gas_storeId st) key []]
               (''storeId'' := query_value (gas_storeId st))) 0 w2 = (Inl e, w2')
      \<longrightarrow> getItem st key w2 = (Inr JNull, w2'))"
proof (intro conjI impI)
  show "\<exists>v w'. getItem st key w = (Inr v, w')"
    by (auto simp: getItem_def try_catch_w_def Let_def split: prod.splits sum.splits)
next
  show "load st key w = getItem st key w" by (simp add: load_def)
next
  assume "gas_initialized st
        \<and> makeRequest st GET
              ([''action'' \<mapsto> ''getItem'', ''key'' \<mapsto> generateKey (gas_storeId st) key []]
               (''storeId'' := query_value (gas_storeId st))) 0 w1 = (Inr r, w1')
        \<and> resp_status r = ''not_found''"
  then show "getItem st key w1 = (Inr JNull, w1')"
    by (simp add: getItem_def try_catch_w_def Let_def)
next
  assume "gas_initialized st
        \<and> makeRequest st GET
              ([''action'' \<mapsto> ''getItem'', ''key'' \<mapsto> generateKey (gas_storeId st) key []]
               (''storeId'' := query_value (gas_storeId st))) 0 w2 = (Inl e, w2')"
  then show "getItem st key w2 = (Inr JNull, w2')"
    by (simp add: getItem_def try_catch_w_def Let_def)
qed

theorem getItem_never_throws_witness:
  "fst (makeRequest
          \<lparr> gas_webAppUrl = Some ''https://script.example/exec'', gas_storeId = Some ''KRB01'',
            gas_initialized = True, gas_retryCount = 3, gas_timeout = 10000 \<rparr>
          GET [''action'' \<mapsto> ''getItem'', ''key'' \<mapsto> ''KRB01.memo'', ''storeId'' \<mapsto> ''KRB01''] 0
          \<lparr> w_server = \<lparr> sheets = Map.empty, server_now = ''2024-06-05T10:00:00.000Z'',
                         api_fault = None, runtime = iso_runtime \<rparr>,
            w_net = [], w_slept = [], w_now = ''2024-06-05T10:00:00.000Z'' \<rparr>)
     = Inr \<lparr> resp_status = ''not_found'', resp_timestamp = ''2024-06-05T10:00:00.000Z'',
             resp_data = JUndefined, resp_error = JUndefined,
             resp_message = JStr ''No data found'' \<rparr>
   \<and> fst (getItem
          \<lparr> gas_webAppUrl = Some ''https://script.example/exec'', gas_storeId = Some ''KRB01'',
            gas_initialized = True, gas_retryCount = 3, gas_timeout = 10000 \<rparr>
          ''memo''
          \<lparr> w_server = \<lparr> sheets = Map.empty, server_now = ''2024-06-05T10:00:00.000Z'',
                         api_fault = None, runtime = iso_runtime \<rparr>,
            w_net = [], w_slept = [], w_now = ''2024-06-05T10:00:00.000Z'' \<rparr>)
     = Inr JNull
   \<and> fst (makeRequest
          \<lparr> gas_webAppUrl = Some ''https://script.example/exec'', gas_storeId = Some ''KRB01'',
            gas_initialized = True, gas_retryCount = 3, gas_timeout = 10000 \<rparr>
          GET [''action'' \<mapsto> ''getItem'', ''key'' \<mapsto> ''KRB01.memo'', ''storeId'' \<mapsto> ''KRB01''] 0
          \<lparr> w_server = \<lparr> sheets = Map.empty, server_now = ''2024-06-05T10:00:00.000Z'',
                         api_fault = None, runtime = iso_runtime \<rparr>,
            w_net = [HttpStatus 503 ''Service Unavailable''], w_slept = [],
            w_now = ''2024-06-05T10:00:00.000Z'' \<rparr>)
     = Inl (JsError ''Error'' ''HTTP 503: Service Unavailable'')
   \<and> fst (getItem
          \<lparr> gas_webAppUrl = Some ''https://script.example/exec'', gas_storeId = Some ''KRB01'',
            gas_initialized = True, gas_retryCount = 3, gas_timeout = 10000 \<rparr>
          ''memo''
          \<lparr> w_server = \<lparr> sheets = Map.empty, server_now = ''2024-06-05T10:00:00.000Z'',
                         api_fault = None, runtime = iso_runtime \<rparr>,
            w_net = [HttpStatus 503 ''Service Unavailable''], w_slept = [],
            w_now = ''2024-06-05T10:00:00.000Z'' \<rparr>)
     = Inr JNull"
proof -
  let ?st = "\<lparr> gas_webAppUrl = Some ''https://script.example/exec'', gas_storeId = Some ''KRB01'',
            gas_initialized = True, gas_retryCount = 3, gas_timeout = 10000 \<rparr>"
  let ?ss = "\<lparr> sheets = Map.empty, server_now = ''2024-06-05T10:00:00.000Z'', api_fault = None, runtime = iso_runtime \<rparr>"
  let ?w1 = "\<lparr> w_server = ?ss, w_net = [], w_slept = [], w_now = ''2024-06-05T10:00:00.000Z'' \<rparr>"
  let ?w2 = "\<lparr> w_server = ?ss, w_net = [HttpStatus 503 ''Service Unavailable''], w_slept = [],
            w_now = ''2024-06-05T10:00:00.000Z'' \<rparr>"
  let ?req = "[''action'' \<mapsto> ''getItem'', ''key'' \<mapsto> ''KRB01.memo'', ''storeId'' \<mapsto> ''KRB01'']"
  let ?r = "\<lparr> resp_status = ''not_found'', resp_timestamp = ''2024-06-05T10:00:00.000Z'',
             resp_data = JUndefined, resp_error = JUndefined,
             resp_message = JStr ''No data found'' \<rparr>"
  let ?e = "JsError ''Error'' ''HTTP 503: Service Unavailable''"
  have req: "([''action'' \<mapsto> ''getItem'', ''key'' \<mapsto> generateKey (gas_storeId ?st) ''memo'' []]
               (''storeId'' := query_value (gas_storeId ?st))) = ?req"
    by (auto simp: generateKey_def or_default_def query_value_def)
  have m1: "fst (makeRequest ?st GET ?req 0 ?w1) = Inr ?r" by code_simp
  have m2: "fst (makeRequest ?st GET ?req 0 ?w2) = Inl ?e" by code_simp
  have p1: "makeRequest ?st GET ?req 0 ?w1 = (Inr ?r, snd (makeRequest ?st GET ?req 0 ?w1))"
    using m1 by (metis prod.collapse)
  have p2: "makeRequest ?st GET ?req 0 ?w2 = (Inl ?e, snd (makeRequest ?st GET ?req 0 ?w2))"
    using m2 by (metis prod.collapse)
  from getItem_never_throws [of ?st "''memo''" ?w1 ?w1 ?r "snd (makeRequest ?st GET ?req 0 ?w1)"
      ?w2 ?e "snd (makeRequest ?st GET ?req 0 ?w2)"]
  have "getItem ?st ''memo'' ?w1 = (Inr JNull, snd (makeRequest ?st GET ?req 0 ?w1))"
    and "getItem ?st ''memo'' ?w2 = (Inr JNull, snd (makeRequest ?st GET ?req 0 ?w2))"
    unfolding req using p1 p2 by simp_all
  with m1 m2 show ?thesis by simp
qed

text \<open>
  Claim C10. \<open>getAllItems\<close> returns and never throws, and what it returns is an
  array: the array in the answer of the service when that answer is a
  \<open>success\<close>, and the empty array in every other case, which are a backend that
  is not initialised, a failure of \<open>makeRequest\<close>, and an answer of the service
  whose status is not \<open>success\<close>.
\<close>

theorem getAllItems_total:
  "(\<exists>xs w'. getAllItems st prefix w = (Inr (JArr xs), w'))
   \<and> (\<not> gas_initialized st \<longrightarrow> getAllItems st prefix w = (Inr (JArr []), w))
   \<and> (gas_initialized st
        \<and> makeRequest st GET
              ([''action'' \<mapsto> ''getAllItems'', ''prefix'' \<mapsto> prefix]
               (''storeId'' := query_value (gas_storeId st))) 0 w1 = (Inl e, w1')
      \<longrightarrow> getAllItems st prefix w1 = (Inr (JArr []), w1'))
   \<and> (gas_initialized st
        \<and> makeRequest st GET
              ([''action'' \<mapsto> ''getAllItems'', ''prefix'' \<mapsto> prefix]
               (''storeId'' := query_value (gas_storeId st))) 0 w2 = (Inr r, w2')
        \<and> resp_status r \<noteq> ''success''
      \<longrightarrow> getAllItems st prefix w2 = (Inr (JArr []), w2'))"
proof (intro conjI impI)
  let ?req = "[''action'' \<mapsto> ''getAllItems'', ''prefix'' \<mapsto> prefix]
               (''storeId'' := query_value (gas_storeId st))"
  have action: "?req ''action'' = Some ''getAllItems''" by simp
  show "\<exists>xs w'. getAllItems st prefix w = (Inr (JArr xs), w')"
  proof (cases "gas_initialized st")
    case False
    then show ?thesis by (simp add: getAllItems_def try_catch_w_def)
  next
    case True
    obtain res w' where m: "makeRequest st GET ?req 0 w = (res, w')"
      by (cases "makeRequest st GET ?req 0 w")
    show ?thesis
    proof (cases res)
      case (Inl e)
      with True m show ?thesis by (simp add: getAllItems_def try_catch_w_def)
    next
      case (Inr r)
      show ?thesis
      proof (cases "resp_status r = ''success''")
        case False
        with True m Inr show ?thesis by (simp add: getAllItems_def try_catch_w_def)
      next
        case success: True
        from m Inr obtain wa where "deliver GET ?req wa = (Inr r, w')"
          using makeRequest_answer by blast
        from deliver_getAllItems_array[OF action this success]
        obtain xs where "resp_data r = JArr xs" by blast
        with True m Inr success show ?thesis by (simp add: getAllItems_def try_catch_w_def)
      qed
    qed
  qed
next
  assume "\<not> gas_initialized st"
  then show "getAllItems st prefix w = (Inr (JArr []), w)"
    by (simp add: getAllItems_def try_catch_w_def)
next
  assume "gas_initialized st
        \<and> makeRequest st GET
              ([''action'' \<mapsto> ''getAllItems'', ''prefix'' \<mapsto> prefix]
               (''storeId'' := query_value (gas_storeId st))) 0 w1 = (Inl e, w1')"
  then show "getAllItems st prefix w1 = (Inr (JArr []), w1')"
    by (simp add: getAllItems_def try_catch_w_def)
next
  assume "gas_initialized st
        \<and> makeRequest st GET
              ([''action'' \<mapsto> ''getAllItems'', ''prefix'' \<mapsto> prefix]
               (''storeId'' := query_value (gas_storeId st))) 0 w2 = (Inr r, w2')
        \<and> resp_status r \<noteq> ''success''"
  then show "getAllItems st prefix w2 = (Inr (JArr []), w2')"
    by (simp add: getAllItems_def try_catch_w_def)
qed

theorem getAllItems_total_witness:
  "fst (getAllItems
          \<lparr> gas_webAppUrl = None, gas_storeId = None,
            gas_initialized = False, gas_retryCount = 3, gas_timeout = 10000 \<rparr>
          ''yousei:''
          \<lparr> w_server = \<lparr> sheets = Map.empty, server_now = ''2024-06-05T10:00:00.000Z'',
                         api_fault = None, runtime = iso_runtime \<rparr>,
            w_net = [], w_slept = [], w_now = ''2024-06-05T10:00:00.000Z'' \<rparr>)
     = Inr (JArr [])
   \<and> fst (makeRequest
          \<lparr> gas_webAppUrl = Some ''https://script.example/exec'', gas_storeId = Some ''KRB01'',
            gas_initialized = True, gas_retryCount = 3, gas_timeout = 10000 \<rparr>
          GET [''action'' \<mapsto> ''getAllItems'', ''prefix'' \<mapsto> ''yousei:'', ''storeId'' \<mapsto> ''KRB01''] 0
          \<lparr> w_server = \<lparr> sheets = Map.empty, server_now = ''2024-06-05T10:00:00.000Z'',
                         api_fault = None, runtime = iso_runtime \<rparr>,
            w_net = [Reject ''TypeError'' ''Failed to fetch''], w_slept = [],
            w_now = ''2024-06-05T10:00:00.000Z'' \<rparr>)
     = Inl (JsError ''TypeError'' ''Failed to fetch'')
   \<and> fst (getAllItems
          \<lparr> gas_webAppUrl = Some ''https://script.example/exec'', gas_storeId = Some ''KRB01'',
            gas_initialized = True, gas_retryCount = 3, gas_timeout = 10000 \<rparr>
          ''yousei:''
          \<lparr> w_server = \<lparr> sheets = Map.empty, server_now = ''2024-06-05T10:00:00.000Z'',
                         api_fault = None, runtime = iso_runtime \<rparr>,
            w_net = [Reject ''TypeError'' ''Failed to fetch''], w_slept = [],
            w_now = ''2024-06-05T10:00:00.000Z'' \<rparr>)
     = Inr (JArr [])
   \<and> fst (makeRequest
          \<lparr> gas_webAppUrl = Some ''https://script.example/exec'', gas_storeId = Some ''KRB01'',
            gas_initialized = True, gas_retryCount = 3, gas_timeout = 10000 \<rparr>
          GET [''action'' \<mapsto> ''getAllItems'', ''prefix'' \<mapsto> ''yousei:'', ''storeId'' \<mapsto> ''KRB01''] 0
          \<lparr> w_server = \<lparr> sheets = Map.empty, server_now = ''2024-06-05T10:00:00.000Z'',
                         api_fault = Some ''Service unavailable'', runtime = iso_runtime \<rparr>,
            w_net = [], w_slept = [], w_now = ''2024-06-05T10:00:00.000Z'' \<rparr>)
     = Inr \<lparr> resp_status = ''error'', resp_timestamp = ''2024-06-05T10:00:00.000Z'',
             resp_data = JUndefined,
             resp_error = JStr ''Failed to get all items: Service unavailable'',
             resp_message = JUndefined \<rparr>
   \<and> fst (getAllItems
          \<lparr> gas_webAppUrl = Some ''https://script.example/exec'', gas_storeId = Some ''KRB01'',
            gas_initialized = True, gas_retryCount = 3, gas_timeout = 10000 \<rparr>
          ''yousei:''
          \<lparr> w_server = \<lparr> sheets = Map.empty, server_now = ''2024-06-05T10:00:00.000Z'',
                         api_fault = Some ''Service unavailable'', runtime = iso_runtime \<rparr>,
            w_net = [], w_slept = [], w_now = ''2024-06-05T10:00:00.000Z'' \<rparr>)
     = Inr (JArr [])"
proof -
  let ?unset = "\<lparr> gas_webAppUrl = None, gas_storeId = None,
            gas_initialized = False, gas_retryCount = 3, gas_timeout = 10000 \<rparr>"
  let ?st = "\<lparr> gas_webAppUrl = Some ''https://script.example/exec'', gas_storeId = Some ''KRB01'',
            gas_initialized = True, gas_retryCount = 3, gas_timeout = 10000 \<rparr>"
  let ?w0 = "\<lparr> w_server = \<lparr> sheets = Map.empty, server_now = ''2024-06-05T10:00:00.000Z'',
                         api_fault = None, runtime = iso_runtime \<rparr>,
            w_net = [], w_slept = [], w_now = ''2024-06-05T10:00:00.000Z'' \<rparr>"
  let ?w1 = "\<lparr> w_server = \<lparr> sheets = Map.empty, server_now = ''2024-06-05T10:00:00.000Z'',
                         api_fault = None, runtime = iso_runtime \<rparr>,
            w_net = [Reject ''TypeError'' ''Failed to fetch''], w_slept = [],
            w_now = ''2024-06-05T10:00:00.000Z'' \<rparr>"
  let ?w2 = "\<lparr> w_server = \<lparr> sheets = Map.empty, server_now = ''2024-06-05T10:00:00.000Z'',
                         api_fault = Some ''Service unavailable'', runtime = iso_runtime \<rparr>,
            w_net = [], w_slept = [], w_now = ''2024-06-05T10:00:00.000Z'' \<rparr>"
  let ?req = "[''action'' \<mapsto> ''getAllItems'', ''prefix'' \<mapsto> ''yousei:'', ''storeId'' \<mapsto> ''KRB01'']"
  let ?e = "JsError ''TypeError'' ''Failed to fetch''"
  let ?r = "\<lparr> resp_status = ''error'', resp_timestamp = ''2024-06-05T10:00:00.000Z'',
             resp_data = JUndefined,
             resp_error = JStr ''Failed to get all items: Service unavailable'',
             resp_message = JUndefined \<rparr>"
  have req: "([''action'' \<mapsto> ''getAllItems'', ''prefix'' \<mapsto> ''yousei:'']
               (''storeId'' := query_value (gas_storeId ?st))) = ?req"
    by (auto simp: query_value_def)
  have m1: "fst (makeRequest ?st GET ?req 0 ?w1) = Inl ?e" by code_simp
  have m2: "fst (makeRequest ?st GET ?req 0 ?w2) = Inr ?r" by code_simp
  have p1: "makeRequest ?st GET ?req 0 ?w1 = (Inl ?e, snd (makeRequest ?st GET ?req 0 ?w1))"
    using m1 by (metis prod.collapse)
  have p2: "makeRequest ?st GET ?req 0 ?w2 = (Inr ?r, snd (makeRequest ?st GET ?req 0 ?w2))"
    using m2 by (metis prod.collapse)
  have status: "resp_status ?r \<noteq> ''success''" by simp
  from getAllItems_total [of ?unset "''yousei:''" ?w0]
  have a0: "getAllItems ?unset ''yousei:'' ?w0 = (Inr (JArr []), ?w0)" by simp
  from getAllItems_total [of ?st "''yousei:''" ?w0 ?w1 ?e "snd (makeRequest ?st GET ?req 0 ?w1)"
      ?w2 ?r "snd (makeRequest ?st GET ?req 0 ?w2)"]
  have "getAllItems ?st ''yousei:'' ?w1 = (Inr (JArr []), snd (makeRequest ?st GET ?req 0 ?w1))"
    and "getAllItems ?st ''yousei:'' ?w2 = (Inr (JArr []), snd (makeRequest ?st GET ?req 0 ?w2))"
    unfolding req using p1 p2 status by simp_all
  with a0 m1 m2 show ?thesis by simp
qed

section \<open>Saving and loading through the client\<close>

lemma find_from_bounds:
  "find_from s k rs = Some i \<Longrightarrow> s \<le> i \<and> i < s + length rs"
  by (induction rs arbitrary: s) (auto split: if_splits, fastforce+)

lemma find_from_update:
  "find_from s k rs = Some i \<Longrightarrow> col_key r = k \<Longrightarrow>
   find_from s k (rs[i - s := r]) = Some i \<and> (rs[i - s := r]) ! (i - s) = r"
proof (induction rs arbitrary: s)
  case Nil
  then show ?case by simp
next
  case (Cons a rs)
  show ?case
  proof (cases "col_key a = k")
    case True
    with Cons.prems show ?thesis by simp
  next
    case False
    with Cons.prems have f: "find_from (Suc s) k rs = Some i" by simp
    from find_from_bounds[OF f] have b: "Suc s \<le> i" by simp
    then have "i - s = Suc (i - Suc s)" by simp
    with Cons.IH[OF f Cons.prems(2)] False show ?thesis by simp
  qed
qed

lemma find_from_append:
  "find_from s k rs = None \<Longrightarrow> col_key r = k \<Longrightarrow>
   find_from s k (rs @ [r]) = Some (s + length rs)"
  by (induction rs arbitrary: s) (auto split: if_splits)

lemma getOrCreateSheet_opens:
  assumes "api_fault ss = None"
  shows "\<exists>ss1 data. getOrCreateSheet ss n = Inr (n, ss1) \<and> api_fault ss1 = None
           \<and> sheets ss1 n = Some data \<and> server_now ss1 = server_now ss"
  using assms by (cases "sheets ss n") (simp_all add: getOrCreateSheet_def)

lemma handleSetItem_stores:
  assumes "api_fault ss = None" and "params ''key'' = Some key" and "key \<noteq> []"
    and "params ''value'' = Some v"
  shows "\<exists>ss' rows i d. handleSetItem ss params = Inr (createResponse ss' ''success'' d JNull, ss')
           \<and> api_fault ss' = None \<and> sheets ss' (or_default (params ''storeId'') ''default'') = Some rows \<and> 1 < length rows
           \<and> find_from 1 key (drop 1 rows) = Some i \<and> col_value (rows ! i) = v"
proof -
  let ?n = "or_default (params ''storeId'') ''default''"
  let ?r = "\<lparr> col_key = key, col_value = v,
              col_timestamp = or_default (params ''timestamp'') (server_now ss),
              col_lastModified = server_now ss \<rparr>"
  let ?d = "JObj [(''key'', JStr key), (''saved'', JBool True), (''timestamp'', JStr (server_now ss))]"
  obtain ss1 data where g: "getOrCreateSheet ss ?n = Inr (?n, ss1)" and a1: "api_fault ss1 = None"
    and data: "sheets ss1 ?n = Some data" and now1: "server_now ss1 = server_now ss"
    using getOrCreateSheet_opens[OF assms(1), of ?n] by blast
  then have gv: "getValues ss1 ?n = data" by (simp add: getValues_def)
  let ?ss2 = "if length data = 0 then setRow ss1 ?n 0 headers else ss1"
  let ?ss3 = "case find_from 1 key (drop 1 data) of
                Some i \<Rightarrow> setRow ?ss2 ?n i ?r | None \<Rightarrow> appendRow ?ss2 ?n ?r"
  have res: "handleSetItem ss params = Inr (createResponse ?ss3 ''success'' ?d JNull, ?ss3)"
    using assms(2-4) g gv
    by (simp add: handleSetItem_def try_catch_def Let_def)
  have a3: "api_fault ?ss3 = None"
    using a1 by (simp split: option.split)
  show ?thesis
  proof (cases "find_from 1 key (drop 1 data)")
    case None
    let ?base = "if length data = 0 then [headers] else data"
    have v2: "getValues ?ss2 ?n = ?base"
      using data by (auto simp: getValues_def setRow_def)
    have rows: "sheets ?ss3 ?n = Some (?base @ [?r])"
      using None v2 by (simp add: appendRow_def)
    have nonempty: "?base \<noteq> []" by simp
    have d1: "drop 1 (?base @ [?r]) = drop 1 data @ [?r]"
      by (cases data) simp_all
    have found: "find_from 1 key (drop 1 (?base @ [?r])) = Some (1 + length (drop 1 data))"
      unfolding d1 using None by (intro find_from_append) simp_all
    have len: "1 + length (drop 1 data) = length ?base"
      by (cases data) simp_all
    have "col_value ((?base @ [?r]) ! (1 + length (drop 1 data))) = v"
      unfolding len by (simp only: nth_append_length) simp
    moreover have "1 < length (?base @ [?r])"
      using nonempty by (cases ?base) simp_all
    ultimately show ?thesis
      using res a3 rows found by blast
  next
    case (Some i)
    from find_from_bounds[OF Some] have b: "1 \<le> i" "i < length data"
      by (cases data; simp)+
    then have ne: "length data \<noteq> 0" by auto
    have rows: "sheets ?ss3 ?n = Some (data[i := ?r])"
      using Some ne b gv by (simp add: setRow_def Let_def)
    have d1: "drop 1 (data[i := ?r]) = (drop 1 data)[i - 1 := ?r]"
      using b by (simp add: drop_update_swap)
    from find_from_update[OF Some, of ?r]
    have found: "find_from 1 key (drop 1 (data[i := ?r])) = Some i"
      unfolding d1 by simp
    have "col_value ((data[i := ?r]) ! i) = v"
      using b by simp
    moreover have "1 < length (data[i := ?r])"
      using b by simp
    ultimately show ?thesis
      using res a3 rows found by blast
  qed
qed

lemma handleGetItem_finds:
  assumes "api_fault ss = None" and "params ''key'' = Some key" and "key \<noteq> []"
    and "sheets ss (or_default (params ''storeId'') ''default'') = Some rows" and "1 < length rows"
    and "find_from 1 key (drop 1 rows) = Some i"
  shows "handleGetItem ss params
           = Inr (createResponse ss ''success'' (JStr (col_value (rows ! i))) JNull, ss)"
  using assms
  by (simp add: handleGetItem_def try_catch_def Let_def getOrCreateSheet_def getValues_def)

lemma handleRequest_setItem:
  "params ''action'' = Some ''setItem'' \<Longrightarrow> handleRequest ss params = handleSetItem ss params"
proof -
  assume a: "params ''action'' = Some ''setItem''"
  obtain v where "handleSetItem ss params = Inr v"
    using handleSetItem_shape[of ss params] by (elim exE conjE) (rule that, assumption)
  with a show ?thesis by (simp add: handleRequest_def try_catch_def)
qed

lemma handleRequest_getItem:
  "params ''action'' = Some ''getItem'' \<Longrightarrow> handleRequest ss params = handleGetItem ss params"
proof -
  assume a: "params ''action'' = Some ''getItem''"
  obtain v where "handleGetItem ss params = Inr v"
    using handleGetItem_shape[of ss params] by (elim exE conjE) (rule that, assumption)
  with a show ?thesis by (simp add: handleRequest_def try_catch_def)
qed

lemma generateKey_nonempty:
  "s \<noteq> [] \<or> key \<noteq> [] \<Longrightarrow> generateKey (Some s) key [] \<noteq> []"
  by (auto simp: generateKey_def or_default_def)

lemma createResponse_success:
  "JSON_parse (getContent (createResponse ss ''success'' d JNull))
     = \<lparr> resp_status = ''success'', resp_timestamp = server_now ss, resp_data = d,
         resp_error = JUndefined, resp_message = JUndefined \<rparr>"
  by (simp add: createResponse_def)

lemma makeRequest_quiet_network:
  assumes "\<not> falsy (gas_webAppUrl st)" and "w_net w = []"
  shows "makeRequest st verb d 0 w = deliver verb d w"
  using makeRequest_delivered[OF assms(1), of w verb d 0] assms(2)
  by (simp add: world_net_same)

text \<open>
  Claim C1, as the code has it. On an initialised backend with a store id, with
  the network delivering and the spreadsheet open, and with a storage key that
  is not empty (the store id or the key is not the empty string): saving a
  value other than \<open>null\<close> and \<open>undefined\<close>, be it a boolean, a number, a string,
  an array or a plain object, returns \<open>true\<close>, and loading the key then returns a
  string: the value itself when the value is a string, and the text
  \<open>JSON.stringify(value)\<close> when it is not. A string value makes the round trip;
  any other value comes back as its serialisation.
\<close>

theorem save_then_load:
  assumes "gas_initialized st" and "\<not> falsy (gas_webAppUrl st)" and "gas_storeId st = Some s"
    and "s \<noteq> [] \<or> key \<noteq> []" and "val \<noteq> JNull" and "val \<noteq> JUndefined"
    and "w_net w = []" and "api_fault (w_server w) = None"
  shows "\<exists>w1. save st key val w = (Inr True, w1)
           \<and> load st key w1
               = (Inr (JStr (case val of JStr t \<Rightarrow> t | _ \<Rightarrow> JSON_stringify val)), w1)
           \<and> save st key val w = setItem st key val w
           \<and> load st key w1 = getItem st key w1"
proof -
  let ?k = "generateKey (Some s) key []"
  let ?text = "case val of JStr t \<Rightarrow> t | _ \<Rightarrow> JSON_stringify val"
  let ?post = "[''action'' \<mapsto> ''setItem'', ''key'' \<mapsto> ?k, ''value'' \<mapsto> ?text,
                ''timestamp'' \<mapsto> w_now w] (''storeId'' := Some s)"
  let ?get = "[''action'' \<mapsto> ''getItem'', ''key'' \<mapsto> ?k] (''storeId'' := query_value (Some s))"
  have k: "?k \<noteq> []" using assms(4) by (rule generateKey_nonempty)
  have same_sheet: "or_default (?get ''storeId'') ''default'' = or_default (?post ''storeId'') ''default''"
    by (simp add: query_value_def)
  obtain ss' rows i d where
    stored: "handleSetItem (w_server w) ?post = Inr (createResponse ss' ''success'' d JNull, ss')"
    and healthy: "api_fault ss' = None"
    and rows: "sheets ss' (or_default (?post ''storeId'') ''default'') = Some rows" "1 < length rows"
    and found: "find_from 1 ?k (drop 1 rows) = Some i" "col_value (rows ! i) = ?text"
    using handleSetItem_stores[OF assms(8), of ?post ?k ?text] k by auto
  let ?w1 = "w \<lparr> w_server := ss' \<rparr>"
  have "handleRequest (w_server w) ?post = handleSetItem (w_server w) ?post"
    by (rule handleRequest_setItem) simp
  with stored have "deliver POST ?post w
      = (Inr (JSON_parse (getContent (createResponse ss' ''success'' d JNull))), ?w1)"
    by (simp add: deliver_def doPost_def try_catch_def)
  then have sent: "makeRequest st POST ?post 0 w
      = (Inr (JSON_parse (getContent (createResponse ss' ''success'' d JNull))), ?w1)"
    using makeRequest_quiet_network[OF assms(2,7)] by simp
  have saved: "setItem st key val w = (Inr True, ?w1)"
    using assms(1,3,5,6) sent
    by (simp add: setItem_def try_catch_w_def validateData_def Let_def createResponse_success)
  have "handleGetItem ss' ?get
      = Inr (createResponse ss' ''success'' (JStr (col_value (rows ! i))) JNull, ss')"
    using healthy k rows found(1)
    by (intro handleGetItem_finds) (simp_all add: query_value_def)
  moreover have "handleRequest ss' ?get = handleGetItem ss' ?get"
    by (rule handleRequest_getItem) simp
  ultimately have "deliver GET ?get ?w1
      = (Inr (JSON_parse (getContent (createResponse ss' ''success'' (JStr ?text) JNull))), ?w1)"
    using found(2) by (simp add: deliver_def doGet_def)
  moreover have "w_net ?w1 = []" using assms(7) by simp
  ultimately have got: "makeRequest st GET ?get 0 ?w1
      = (Inr (JSON_parse (getContent (createResponse ss' ''success'' (JStr ?text) JNull))), ?w1)"
    using makeRequest_quiet_network[OF assms(2), of ?w1 GET ?get] by simp
  have loaded: "getItem st key ?w1 = (Inr (JStr ?text), ?w1)"
    using assms(1,3) got
    by (simp add: getItem_def try_catch_w_def Let_def createResponse_success)
  from saved loaded show ?thesis
    by (intro exI[of _ ?w1]) (simp add: save_def load_def)
qed

theorem save_then_load_witness:
  "(\<exists>w1. save \<lparr> gas_webAppUrl = Some ''https://script.example/exec'', gas_storeId = Some ''KRB01'',
                  gas_initialized = True, gas_retryCount = 3, gas_timeout = 10000 \<rparr>
               ''memo'' (JStr ''hello'')
               \<lparr> w_server = \<lparr> sheets = Map.empty, server_now = ''2024-06-05T10:00:00.000Z'',
                              api_fault = None, runtime = iso_runtime \<rparr>,
                 w_net = [], w_slept = [], w_now = ''2024-06-05T09:59:59.000Z'' \<rparr>
            = (Inr True, w1)
        \<and> load \<lparr> gas_webAppUrl = Some ''https://script.example/exec'', gas_storeId = Some ''KRB01'',
                  gas_initialized = True, gas_retryCount = 3, gas_timeout = 10000 \<rparr>
               ''memo'' w1
            = (Inr (JStr ''hello''), w1))
   \<and> (\<exists>w1. save \<lparr> gas_webAppUrl = Some ''https://script.example/exec'', gas_storeId = Some ''KRB01'',
                  gas_initialized = True, gas_retryCount = 3, gas_timeout = 10000 \<rparr>
               ''memo'' (JObj [(''b'', JNum ''1e+21''), (''2'', JArr [JNum ''0.5'', JBool True])])
               \<lparr> w_server = \<lparr> sheets = Map.empty, server_now = ''2024-06-05T10:00:00.000Z'',
                              api_fault = None, runtime = iso_runtime \<rparr>,
                 w_net = [], w_slept = [], w_now = ''2024-06-05T09:59:59.000Z'' \<rparr>
            = (Inr True, w1)
        \<and> load \<lparr> gas_webAppUrl = Some ''https://script.example/exec'', gas_storeId = Some ''KRB01'',
                  gas_initialized = True, gas_retryCount = 3, gas_timeout = 10000 \<rparr>
               ''memo'' w1
            = (Inr (JStr ([CHR ''{'', CHR 0x22, CHR ''2'', CHR 0x22] @ '':[0.5,true],'' @ [CHR 0x22, CHR ''b'', CHR 0x22] @ '':1e+21}'')), w1))"
proof -
  let ?st = "\<lparr> gas_webAppUrl = Some ''https://script.example/exec'', gas_storeId = Some ''KRB01'',
                  gas_initialized = True, gas_retryCount = 3, gas_timeout = 10000 \<rparr>"
  let ?w = "\<lparr> w_server = \<lparr> sheets = Map.empty, server_now = ''2024-06-05T10:00:00.000Z'',
                              api_fault = None, runtime = iso_runtime \<rparr>,
                 w_net = [], w_slept = [], w_now = ''2024-06-05T09:59:59.000Z'' \<rparr>"
  let ?val = "JObj [(''b'', JNum ''1e+21''), (''2'', JArr [JNum ''0.5'', JBool True])]"
  have serial: "JSON_stringify ?val = ([CHR ''{'', CHR 0x22, CHR ''2'', CHR 0x22] @ '':[0.5,true],'' @ [CHR 0x22, CHR ''b'', CHR 0x22] @ '':1e+21}'')"
    by code_simp
  have pre: "gas_initialized ?st" "\<not> falsy (gas_webAppUrl ?st)" "gas_storeId ?st = Some ''KRB01''"
    "''KRB01'' \<noteq> [] \<or> ''memo'' \<noteq> []" "w_net ?w = []" "api_fault (w_server ?w) = None"
    by (simp_all add: falsy_def)
  from save_then_load [OF pre(1-4) _ _ pre(5,6), of "JStr ''hello''"]
  have one: "\<exists>w1. save ?st ''memo'' (JStr ''hello'') ?w = (Inr True, w1)
        \<and> load ?st ''memo'' w1 = (Inr (JStr ''hello''), w1)"
    by auto
  from save_then_load [OF pre(1-4) _ _ pre(5,6), of ?val]
  have two: "\<exists>w1. save ?st ''memo'' ?val ?w = (Inr True, w1)
        \<and> load ?st ''memo'' w1 = (Inr (JStr ([CHR ''{'', CHR 0x22, CHR ''2'', CHR 0x22] @ '':[0.5,true],'' @ [CHR 0x22, CHR ''b'', CHR 0x22] @ '':1e+21}'')), w1)"
    unfolding jsval.case serial by auto
  from one two show ?thesis by (rule conjI)
qed

text \<open>
  Claim C1 as stated fails for a value that is not a string: the object
  \<open>{a: 1}\<close> is saved, and what is loaded is the string of its JSON text.
\<close>

theorem save_then_load_counterexample:
  "fst (save \<lparr> gas_webAppUrl = Some ''https://script.example/exec'', gas_storeId = Some ''KRB01'',
              gas_initialized = True, gas_retryCount = 3, gas_timeout = 10000 \<rparr>
            ''memo'' (JObj [(''a'', JNum ''1'')])
            \<lparr> w_server = \<lparr> sheets = Map.empty, server_now = ''2024-06-05T10:00:00.000Z'',
                           api_fault = None, runtime = iso_runtime \<rparr>,
              w_net = [], w_slept = [], w_now = ''2024-06-05T09:59:59.000Z'' \<rparr>)
     = Inr True
   \<and> fst (load \<lparr> gas_webAppUrl = Some ''https://script.example/exec'', gas_storeId = Some ''KRB01'',
              gas_initialized = True, gas_retryCount = 3, gas_timeout = 10000 \<rparr>
            ''memo''
            (snd (save \<lparr> gas_webAppUrl = Some ''https://script.example/exec'',
                         gas_storeId = Some ''KRB01'',
                         gas_initialized = True, gas_retryCount = 3, gas_timeout = 10000 \<rparr>
                       ''memo'' (JObj [(''a'', JNum ''1'')])
                       \<lparr> w_server = \<lparr> sheets = Map.empty,
                                      server_now = ''2024-06-05T10:00:00.000Z'',
                                      api_fault = None, runtime = iso_runtime \<rparr>,
                         w_net = [], w_slept = [], w_now = ''2024-06-05T09:59:59.000Z'' \<rparr>)))
     = Inr (JStr [CHR ''{'', CHR 0x22, CHR ''a'', CHR 0x22, CHR '':'', CHR ''1'', CHR ''}''])
   \<and> JStr [CHR ''{'', CHR 0x22, CHR ''a'', CHR 0x22, CHR '':'', CHR ''1'', CHR ''}'']
     \<noteq> JObj [(''a'', JNum ''1'')]"
  by code_simp

text \<open>
  Claim C2. The claim holds of what the interface promises, and the code misses
  it: \<open>setItem\<close> and \<open>getItem\<close> address the row by the storage key
  \<open>generateKey(storeId, key)\<close>, and \<open>removeItem\<close> sends the caller's key as it
  is. With store id \<open>KRB01\<close>, the value saved under \<open>memo\<close> is in the row
  \<open>KRB01.memo\<close>; \<open>removeItem('memo')\<close> asks the service to delete the row
  \<open>memo\<close>, is answered \<open>not_found\<close> and throws \<open>Remove failed\<close>; the row is still
  there, and \<open>getItem('memo')\<close> returns the saved value, not \<open>null\<close>.
\<close>

theorem removeItem_misses_saved_key:
  "fst (setItem \<lparr> gas_webAppUrl = Some ''https://script.example/exec'', gas_storeId = Some ''KRB01'',
                 gas_initialized = True, gas_retryCount = 3, gas_timeout = 10000 \<rparr>
               ''memo'' (JStr ''v'')
               \<lparr> w_server = \<lparr> sheets = Map.empty, server_now = ''2024-06-05T10:00:00.000Z'',
                              api_fault = None, runtime = iso_runtime \<rparr>,
                 w_net = [], w_slept = [], w_now = ''2024-06-05T09:59:59.000Z'' \<rparr>)
     = Inr True
   \<and> fst (removeItem \<lparr> gas_webAppUrl = Some ''https://script.example/exec'',
                       gas_storeId = Some ''KRB01'',
                       gas_initialized = True, gas_retryCount = 3, gas_timeout = 10000 \<rparr>
            ''memo''
            (snd (setItem \<lparr> gas_webAppUrl = Some ''https://script.example/exec'',
                            gas_storeId = Some ''KRB01'',
                            gas_initialized = True, gas_retryCount = 3, gas_timeout = 10000 \<rparr>
                    ''memo'' (JStr ''v'')
                    \<lparr> w_server = \<lparr> sheets = Map.empty,
                                   server_now = ''2024-06-05T10:00:00.000Z'',
                                   api_fault = None, runtime = iso_runtime \<rparr>,
                      w_net = [], w_slept = [], w_now = ''2024-06-05T09:59:59.000Z'' \<rparr>)))
     = Inl (JsError ''Error'' ''Remove failed'')
   \<and> fst (getItem \<lparr> gas_webAppUrl = Some ''https://script.example/exec'',
                    gas_storeId = Some ''KRB01'',
                    gas_initialized = True, gas_retryCount = 3, gas_timeout = 10000 \<rparr>
            ''memo''
            (snd (removeItem \<lparr> gas_webAppUrl = Some ''https://script.example/exec'',
                               gas_storeId = Some ''KRB01'',
                               gas_initialized = True, gas_retryCount = 3, gas_timeout = 10000 \<rparr>
                    ''memo''
                    (snd (setItem \<lparr> gas_webAppUrl = Some ''https://script.example/exec'',
                                    gas_storeId = Some ''KRB01'',
                                    gas_initialized = True, gas_retryCount = 3,
                                    gas_timeout = 10000 \<rparr>
                            ''memo'' (JStr ''v'')
                            \<lparr> w_server = \<lparr> sheets = Map.empty,
                                           server_now = ''2024-06-05T10:00:00.000Z'',
                                           api_fault = None, runtime = iso_runtime \<rparr>,
                              w_net = [], w_slept = [],
                              w_now = ''2024-06-05T09:59:59.000Z'' \<rparr>)))))
     = Inr (JStr ''v'')
   \<and> map col_key
        (getValues
           (w_server
              (snd (removeItem \<lparr> gas_webAppUrl = Some ''https://script.example/exec'',
                               gas_storeId = Some ''KRB01'',
                               gas_initialized = True, gas_retryCount = 3, gas_timeout = 10000 \<rparr>
                    ''memo''
                    (snd (setItem \<lparr> gas_webAppUrl = Some ''https://script.example/exec'',
                                    gas_storeId = Some ''KRB01'',
                                    gas_initialized = True, gas_retryCount = 3,
                                    gas_timeout = 10000 \<rparr>
                            ''memo'' (JStr ''v'')
                            \<lparr> w_server = \<lparr> sheets = Map.empty,
                                           server_now = ''2024-06-05T10:00:00.000Z'',
                                           api_fault = None, runtime = iso_runtime \<rparr>,
                              w_net = [], w_slept = [],
                              w_now = ''2024-06-05T09:59:59.000Z'' \<rparr>)))))
           ''KRB01'')
     = [''key'', ''KRB01.memo'']"
  by code_simp

section \<open>Properties of the cloud backend's fallback\<close>





end
